theory Spec2Isabelle
  imports Main
begin

section \<open>The notebooks as data\<close>

text \<open>
  The repository holds two Jupyter notebooks and nothing else. A notebook is a list of
  cells; a code cell's \<open>source\<close> is the list of its lines of text. The lines
  are copied from the notebook files character for character, without the line feed
  that ends each line but the last. Markdown cells hold no code and are left out; a
  cell's name carries its position in the notebook's \<open>cells\<close> array. The
  outputs a notebook file records are not code either and are left out as well.
\<close>

type_synonym cell = "string list"

type_synonym notebook = "cell list"

subsection \<open>The ArcGIS notebook, \<open>lessons/1b-Creating-spatial-data-frames-with-ArcGIS-API.ipynb\<close>\<close>

definition arcgis_cell_6 :: cell where
  "arcgis_cell_6 =
    [''#Import pandas and the arcgis GeoAccessor object'',
     ''import pandas as pd'',
     ''from arcgis import GeoAccessor'']"

definition arcgis_cell_7 :: cell where
  "arcgis_cell_7 =
    [''#Read the data into a Pandas dataframe'',
     ''df = pd.read_csv('../data/NC_Charging_Stations.csv')'']"

definition arcgis_cell_8 :: cell where
  "arcgis_cell_8 =
    [''#Review the read_xy() function's syntax'',
     ''GeoAccessor.from_xy?'']"

definition arcgis_cell_10 :: cell where
  \<open>arcgis_cell_10 =
    [''#Read the EV Charging station data into a Pandas dataframe'',
     ''sdf = GeoAccessor.from_xy('',
     ''    df,'',
     ''    x_column ="Longitude",'',
     ''    y_column = "Latitude",'',
     ''    sr=4326)'']\<close>

definition arcgis_cell_12 :: cell where
  "arcgis_cell_12 =
    [''#View a few records'',
     ''sdf.head()'']"

definition arcgis_cell_13 :: cell where
  "arcgis_cell_13 =
    [''#Examine the data type of the object we just created'',
     ''type(sdf)'']"

definition arcgis_cell_15 :: cell where
  \<open>arcgis_cell_15 =
    [''#Examine the "spatially enabled" dataframe'',
     ''type(sdf.spatial)'']\<close>

definition arcgis_cell_16 :: cell where
  "arcgis_cell_16 =
    [''#Examine a few properties of this object'',
     ''sdf.spatial.centroid'']"

definition arcgis_cell_17 :: cell where
  "arcgis_cell_17 =
    [''#Plot the data'',
     ''sdf.spatial.plot()'']"

definition arcgis_cell_20 :: cell where
  "arcgis_cell_20 =
    [''#Explore the GeoAccessor's from_featureclass() command'',
     ''GeoAccessor.from_featureclass?'']"

definition arcgis_cell_21 :: cell where
  "arcgis_cell_21 =
    [''#Read the shapefile into a GeoPandas geodataframe'',
     ''sdf_shp = GeoAccessor.from_featureclass('../data/Major_Basins.shp')'']"

definition arcgis_cell_22 :: cell where
  "arcgis_cell_22 =
    [''#Examine the data'',
     ''sdf_shp.head()'']"

definition arcgis_cell_23 :: cell where
  "arcgis_cell_23 =
    [''#What is the spatial reference of the data'',
     ''sdf_shp.spatial.sr'']"

definition arcgis_cell_24 :: cell where
  "arcgis_cell_24 =
    [''#Plot the data...'',
     ''sdf_shp.spatial.plot()'']"

definition arcgis_cell_26 :: cell where
  "arcgis_cell_26 =
    [''#Explore other import options associated with the GeoAccessor object'',
     ''GeoAccessor.'']"

definition arcgis_cell_28 :: cell where
  "arcgis_cell_28 =
    [''#Import the FeatureLayer arcgis package'',
     ''from arcgis.features import FeatureLayer'']"

definition arcgis_cell_29 :: cell where
  "arcgis_cell_29 =
    [''#Set the urls where the feature layer are hosted'',
     ''state_layer_url = 'https://services.nconemap.gov/secure/rest/services/NC1Map_Regional_Boundaries/FeatureServer/0'' @ [CHR 0x27],
     ''county_layer_url = 'https://services.nconemap.gov/secure/rest/services/NC1Map_Regional_Boundaries/FeatureServer/1'' @ [CHR 0x27]]"

definition arcgis_cell_30 :: cell where
  "arcgis_cell_30 =
    [''#Read the data in as a feature layer'',
     ''state_layer = FeatureLayer(state_layer_url)'',
     ''type(state_layer)'']"

definition arcgis_cell_31 :: cell where
  "arcgis_cell_31 =
    [''#Convert to a spatial dataframe'',
     ''sdf_state = GeoAccessor.from_layer(state_layer)'']"

definition arcgis_cell_32 :: cell where
  "arcgis_cell_32 =
    [''#Explore '',
     ''sdf_state.info()'']"

definition arcgis_cell_33 :: cell where
  "arcgis_cell_33 =
    [''#Get the spatial reference'',
     ''sdf_state.spatial.sr'']"

definition arcgis_cell_34 :: cell where
  "arcgis_cell_34 =
    [''sdf_state.spatial.plot()'']"

definition arcgis_cell_35 :: cell where
  "arcgis_cell_35 =
    []"

definition arcgis_notebook :: notebook where
  "arcgis_notebook =
    [arcgis_cell_6,
     arcgis_cell_7,
     arcgis_cell_8,
     arcgis_cell_10,
     arcgis_cell_12,
     arcgis_cell_13,
     arcgis_cell_15,
     arcgis_cell_16,
     arcgis_cell_17,
     arcgis_cell_20,
     arcgis_cell_21,
     arcgis_cell_22,
     arcgis_cell_23,
     arcgis_cell_24,
     arcgis_cell_26,
     arcgis_cell_28,
     arcgis_cell_29,
     arcgis_cell_30,
     arcgis_cell_31,
     arcgis_cell_32,
     arcgis_cell_33,
     arcgis_cell_34,
     arcgis_cell_35]"

subsection \<open>The GeoPandas notebook, Spatial Dataframes 1: Creating them using GeoPandas\<close>

definition geopandas_cell_6 :: cell where
  \<open>geopandas_cell_6 =
    [''#Import libraries: Pandas (as "pd") and geopandas (as "gpd")'',
     ''import pandas as pd'',
     ''import geopandas as gpd'']\<close>

definition geopandas_cell_7 :: cell where
  "geopandas_cell_7 =
    [''#Read the EV Charging station data into a Pandas dataframe'',
     ''df = pd.read_csv('../data/NC_Charging_Stations.csv')'']"

definition geopandas_cell_8 :: cell where
  \<open>geopandas_cell_8 =
    [''#Examine the first few rows, noting the data include "latitude"  "longitude" columns'',
     ''df.head()'']\<close>

definition geopandas_cell_10 :: cell where
  "geopandas_cell_10 =
    [''#Show info on the command'',
     ''gpd.points_from_xy?'']"

definition geopandas_cell_12 :: cell where
  "geopandas_cell_12 =
    [''#Create a geoseries object from the coordinate column'',
     ''geometries = gpd.points_from_xy('',
     ''    x=df['Longitude'],'',
     ''    y=df['Latitude']'',
     '')'']"

definition geopandas_cell_14 :: cell where
  "geopandas_cell_14 =
    [''#View the GeoDataframe() command syntax'',
     ''gpd.GeoDataFrame?'']"

definition geopandas_cell_15 :: cell where
  "geopandas_cell_15 =
    [''#Create a geodataframe from our data'',
     ''gdf_csv = gpd.GeoDataFrame('',
     ''    data=df,'',
     ''    geometry=geometries,'',
     ''    crs = 4326'',
     '')'',
     ''#Confirm the type of the object we just created'',
     ''type(gdf_csv)'']"

definition geopandas_cell_17 :: cell where
  "geopandas_cell_17 =
    [''#Show the first few records of the geodataframe'',
     ''gdf_csv.head()'']"

definition geopandas_cell_18 :: cell where
  "geopandas_cell_18 =
    [''#Show the structure of the dataframe'',
     ''gdf_csv.info()'']"

definition geopandas_cell_19 :: cell where
  "geopandas_cell_19 =
    [''#Show the geodataframe's coordinate reference system'',
     ''gdf_csv.crs'']"

definition geopandas_cell_20 :: cell where
  "geopandas_cell_20 =
    [''#Show just the EPSG code of the crs'',
     ''gdf_csv.crs.to_epsg()'']"

definition geopandas_cell_21 :: cell where
  "geopandas_cell_21 =
    [''#Project to UTM Zone 17N '',
     ''gdf_utm = gdf_csv.to_csv(32617)'']"

definition geopandas_cell_22 :: cell where
  "geopandas_cell_22 =
    [''#Plot the data'',
     ''gdf_csv.plot(color='Green', marker='x', alpha=0.3, figsize=(12,7));'']"

definition geopandas_cell_26 :: cell where
  "geopandas_cell_26 =
    [''#Explore the read_file() command'',
     ''gpd.read_file?'']"

definition geopandas_cell_27 :: cell where
  "geopandas_cell_27 =
    [''#Read the shapefile into a GeoPandas geodataframe'',
     ''gdf_shp = gpd.read_file('../data/Major_Basins.shp')'']"

definition geopandas_cell_29 :: cell where
  "geopandas_cell_29 =
    [''#Read a *zipped* shapefile into a GeoPandas geodataframe'',
     ''gdf_shp = gpd.read_file('../data/Major_River_Basins.zip')'']"

definition geopandas_cell_30 :: cell where
  "geopandas_cell_30 =
    [''#Examine the data'',
     ''gdf_shp.head()'']"

definition geopandas_cell_31 :: cell where
  "geopandas_cell_31 =
    [''#What is the crs of the data'',
     ''gdf_shp.crs.to_string()'']"

definition geopandas_cell_32 :: cell where
  "geopandas_cell_32 =
    [''#Plot the data...'',
     ''gdf_shp.plot(column='Basin', categorical=True, figsize=(12,7), cmap='Pastel2');'']"

definition geopandas_cell_35 :: cell where
  "geopandas_cell_35 =
    [''#read in the file '',
     ''gdf_geojson = gpd.read_file('',
     ''    filename='../data/Major_River_Basins.geojson','',
     ''    driver='GeoJSON')'']"

definition geopandas_cell_36 :: cell where
  "geopandas_cell_36 =
    [''gdf_geojson.plot();'']"

definition geopandas_cell_38 :: cell where
  "geopandas_cell_38 =
    [''#Import Fiona'',
     ''import fiona'']"

definition geopandas_cell_39 :: cell where
  "geopandas_cell_39 =
    [''#Display fiona's active drivers'',
     ''fiona.supported_drivers'']"

definition geopandas_cell_41 :: cell where
  "geopandas_cell_41 =
    [''#Enable the KML driver in geopandas as a read-write format'',
     ''gpd.io.file.fiona.drvsupport.supported_drivers['KML'] = 'rw'' @ [CHR 0x27]]"

definition geopandas_cell_42 :: cell where
  "geopandas_cell_42 =
    [''#Read the IML file'',
     ''gdf_kml = gpd.read_file('../data/Major_River_Basins.kml',driver='KML')'',
     ''gdf_kml.plot(column='Name');'']"

definition geopandas_notebook :: notebook where
  "geopandas_notebook =
    [geopandas_cell_6,
     geopandas_cell_7,
     geopandas_cell_8,
     geopandas_cell_10,
     geopandas_cell_12,
     geopandas_cell_14,
     geopandas_cell_15,
     geopandas_cell_17,
     geopandas_cell_18,
     geopandas_cell_19,
     geopandas_cell_20,
     geopandas_cell_21,
     geopandas_cell_22,
     geopandas_cell_26,
     geopandas_cell_27,
     geopandas_cell_29,
     geopandas_cell_30,
     geopandas_cell_31,
     geopandas_cell_32,
     geopandas_cell_35,
     geopandas_cell_36,
     geopandas_cell_38,
     geopandas_cell_39,
     geopandas_cell_41,
     geopandas_cell_42]"

section \<open>Lexical analysis\<close>

text \<open>
  The cells are Python text, read by the kernel as Python reads it: a line is cut into
  names, numbers, string literals and one-character operators; blanks separate tokens;
  a \<open>#\<close> outside a string literal starts a comment that runs to the end of the
  line. The notebooks use no escape sequence, no triple-quoted string and no line
  continuation by backslash, so a backslash is refused rather than interpreted.
\<close>

datatype token = NAME string | NUMBER string | STRING string | OP char

definition is_digit :: "char \<Rightarrow> bool" where
  "is_digit c = (let n = (of_char c :: nat) in 48 \<le> n \<and> n \<le> 57)"

definition is_name_start :: "char \<Rightarrow> bool" where
  "is_name_start c =
     (let n = (of_char c :: nat)
      in (65 \<le> n \<and> n \<le> 90) \<or> (97 \<le> n \<and> n \<le> 122) \<or> n = 95)"

definition is_name_char :: "char \<Rightarrow> bool" where
  "is_name_char c = (is_name_start c \<or> is_digit c)"

definition is_blank :: "char \<Rightarrow> bool" where
  "is_blank c = (c = CHR '' '' \<or> c = CHR 0x09)"

definition is_quote :: "char \<Rightarrow> bool" where
  "is_quote c = (c = CHR 0x27 \<or> c = CHR 0x22)"

datatype lex_mode = Idle | InName string | InNumber string | InString char string

text \<open>
  \<open>lex\<close> reads one physical line. \<open>None\<close> is a lexical error: a string
  literal that the line does not close, or a backslash.
\<close>

function lex :: "lex_mode \<Rightarrow> string \<Rightarrow> token list option" where
  "lex Idle [] = Some []"
| "lex (InName acc) [] = Some [NAME acc]"
| "lex (InNumber acc) [] = Some [NUMBER acc]"
| "lex (InString q acc) [] = None"
| "lex (InString q acc) (c # cs) =
     (if c = q then map_option (Cons (STRING acc)) (lex Idle cs)
      else if c = CHR 0x5C then None
      else lex (InString q (acc @ [c])) cs)"
| "lex (InName acc) (c # cs) =
     (if is_name_char c then lex (InName (acc @ [c])) cs
      else map_option (Cons (NAME acc)) (lex Idle (c # cs)))"
| "lex (InNumber acc) (c # cs) =
     (if is_digit c \<or> c = CHR ''.'' then lex (InNumber (acc @ [c])) cs
      else map_option (Cons (NUMBER acc)) (lex Idle (c # cs)))"
| "lex Idle (c # cs) =
     (if c = CHR ''#'' then Some []
      else if is_blank c then lex Idle cs
      else if c = CHR 0x5C then None
      else if is_quote c then lex (InString c []) cs
      else if is_name_start c then lex (InName [c]) cs
      else if is_digit c then lex (InNumber [c]) cs
      else map_option (Cons (OP c)) (lex Idle cs))"
  by pat_completeness auto
termination
  by (relation "measure (\<lambda>(m, cs). 2 * length cs + (case m of Idle \<Rightarrow> 0 | _ \<Rightarrow> 1))") auto

definition tokenize :: "string \<Rightarrow> token list option" where
  "tokenize line = lex Idle line"

text \<open>Whether a physical line starts with a blank and still holds a token.\<close>

definition indented :: "string \<Rightarrow> bool" where
  "indented line = (case line of [] \<Rightarrow> False | c # _ \<Rightarrow> is_blank c \<and> tokenize line \<noteq> Some [])"

subsection \<open>Logical lines\<close>

text \<open>
  Inside an open bracket a statement runs on over the following physical lines
  (the calls written over several lines in the notebooks); elsewhere the end of the
  line ends the statement. A line that begins a statement is not indented: no cell
  opens a block, and no cell is indented as a whole. An empty or comment-only line is
  no statement.
\<close>

fun bracket_depth :: "nat \<Rightarrow> token list \<Rightarrow> nat" where
  "bracket_depth d [] = d"
| "bracket_depth d (OP c # ts) =
     (if c = CHR ''('' \<or> c = CHR ''['' \<or> c = CHR ''{'' then bracket_depth (Suc d) ts
      else if c = CHR '')'' \<or> c = CHR '']'' \<or> c = CHR ''}'' then bracket_depth (d - 1) ts
      else bracket_depth d ts)"
| "bracket_depth d (_ # ts) = bracket_depth d ts"

fun join_lines :: "token list \<Rightarrow> nat \<Rightarrow> string list \<Rightarrow> token list list option" where
  "join_lines acc d [] = (if d = 0 then Some [] else None)"
| "join_lines acc d (l # ls) =
     (case tokenize l of
        None \<Rightarrow> None
      | Some ts \<Rightarrow>
          if d = 0 \<and> indented l then None
          else
            let acc' = acc @ ts; d' = bracket_depth d ts
            in if 0 < d' then join_lines acc' d' ls
               else if acc' = [] then join_lines [] 0 ls
               else map_option (Cons acc') (join_lines [] 0 ls))"

definition logical_lines :: "cell \<Rightarrow> token list list option" where
  "logical_lines c = join_lines [] 0 c"

section \<open>Syntax\<close>

text \<open>
  The statements of the notebooks: imports, assignments, expression statements, and
  IPython's help query \<open>obj?\<close>. An expression is a name, a literal or a
  parenthesised tuple, followed by attribute references, calls and subscriptions.
  Python's reserved words are not names. Anything else (a compound statement, an
  operator expression, a dangling \<open>.\<close>) does not parse: the parser answers
  \<open>None\<close>.
\<close>

datatype expr =
    Name string
  | Const string
  | Num string
  | Str string
  | Attr expr string
  | Call expr "arg list"
  | Subscript expr expr
  | Tuple "expr list"
and arg = Pos expr | Kw string expr

datatype stmt =
    Import "string list" "string option"
  | FromImport "string list" string
  | Assign expr expr
  | Expr expr
  | Help expr

definition constants :: "string list" where
  "constants = [''True'', ''False'', ''None'']"

definition reserved_words :: "string list" where
  "reserved_words =
     [''False'', ''None'', ''True'', ''and'', ''as'', ''assert'', ''async'', ''await'',
      ''break'', ''class'', ''continue'', ''def'', ''del'', ''elif'', ''else'', ''except'',
      ''finally'', ''for'', ''from'', ''global'', ''if'', ''import'', ''in'', ''is'',
      ''lambda'', ''nonlocal'', ''not'', ''or'', ''pass'', ''raise'', ''return'', ''try'',
      ''while'', ''with'', ''yield'']"

definition is_identifier :: "string \<Rightarrow> bool" where
  "is_identifier x = (x \<notin> set reserved_words)"

text \<open>
  The parser is a recursive descent over the tokens of one logical line. Its first
  argument bounds the depth of the descent; \<open>parse_stmt\<close> starts it with twice
  the number of tokens plus two, which no descent over that many tokens exceeds.
\<close>

fun parse_expr :: "nat \<Rightarrow> token list \<Rightarrow> (expr \<times> token list) option"
  and parse_trailers :: "nat \<Rightarrow> expr \<Rightarrow> token list \<Rightarrow> (expr \<times> token list) option"
  and parse_items :: "nat \<Rightarrow> token list \<Rightarrow> (expr list \<times> token list) option"
  and parse_args :: "nat \<Rightarrow> token list \<Rightarrow> (arg list \<times> token list) option"
where
  "parse_expr 0 ts = None"
| "parse_expr (Suc n) [] = None"
| "parse_expr (Suc n) (NAME x # ts) =
     (if x \<in> set constants then parse_trailers n (Const x) ts
      else if is_identifier x then parse_trailers n (Name x) ts
      else None)"
| "parse_expr (Suc n) (NUMBER x # ts) = parse_trailers n (Num x) ts"
| "parse_expr (Suc n) (STRING x # ts) = parse_trailers n (Str x) ts"
| "parse_expr (Suc n) (OP c # ts) =
     (if c \<noteq> CHR ''('' then None
      else if ts \<noteq> [] \<and> hd ts = OP (CHR '')'') then parse_trailers n (Tuple []) (tl ts)
      else
        (case parse_expr n ts of
           None \<Rightarrow> None
         | Some (e, []) \<Rightarrow> None
         | Some (e, t # rest) \<Rightarrow>
             if t = OP (CHR '')'') then parse_trailers n e rest
             else if t = OP (CHR '','') then
               (case parse_items n rest of
                  None \<Rightarrow> None
                | Some (es, rest') \<Rightarrow> parse_trailers n (Tuple (e # es)) rest')
             else None))"
| "parse_trailers 0 e ts = None"
| "parse_trailers (Suc n) e [] = Some (e, [])"
| "parse_trailers (Suc n) e (t # ts) =
     (if t = OP (CHR ''.'') then
        (case ts of
           NAME a # rest \<Rightarrow> if is_identifier a then parse_trailers n (Attr e a) rest else None
         | _ \<Rightarrow> None)
      else if t = OP (CHR ''('') then
        (case parse_args n ts of
           None \<Rightarrow> None
         | Some (as, rest) \<Rightarrow> parse_trailers n (Call e as) rest)
      else if t = OP (CHR ''['') then
        (case parse_expr n ts of
           None \<Rightarrow> None
         | Some (k, []) \<Rightarrow> None
         | Some (k, t' # rest) \<Rightarrow>
             if t' = OP (CHR '']'') then parse_trailers n (Subscript e k) rest else None)
      else Some (e, t # ts))"
| "parse_items 0 ts = None"
| "parse_items (Suc n) [] = None"
| "parse_items (Suc n) (t # ts) =
     (if t = OP (CHR '')'') then Some ([], ts)
      else
        (case parse_expr n (t # ts) of
           None \<Rightarrow> None
         | Some (e, []) \<Rightarrow> None
         | Some (e, t' # rest) \<Rightarrow>
             if t' = OP (CHR '')'') then Some ([e], rest)
             else if t' = OP (CHR '','') then
               map_option (\<lambda>(es, rest'). (e # es, rest')) (parse_items n rest)
             else None))"
| "parse_args 0 ts = None"
| "parse_args (Suc n) [] = None"
| "parse_args (Suc n) (t # ts) =
     (if t = OP (CHR '')'') then Some ([], ts)
      else
        (case (case (t, ts) of
                 (NAME k, t1 # ts1) \<Rightarrow>
                   if t1 = OP (CHR ''='') then
                     (if is_identifier k
                      then map_option (\<lambda>(v, rest). (Kw k v, rest)) (parse_expr n ts1)
                      else None)
                   else map_option (\<lambda>(v, rest). (Pos v, rest)) (parse_expr n (t # ts))
               | _ \<Rightarrow> map_option (\<lambda>(v, rest). (Pos v, rest)) (parse_expr n (t # ts))) of
           None \<Rightarrow> None
         | Some (a, []) \<Rightarrow> None
         | Some (a, t' # rest) \<Rightarrow>
             if t' = OP (CHR '')'') then Some ([a], rest)
             else if t' = OP (CHR '','') then
               map_option (\<lambda>(as, rest'). (a # as, rest')) (parse_args n rest)
             else None))"

fun parse_dotted :: "token list \<Rightarrow> (string list \<times> token list) option" where
  "parse_dotted (NAME x # OP c # ts) =
     (if \<not> is_identifier x then None
      else if c = CHR ''.'' then map_option (\<lambda>(xs, rest). (x # xs, rest)) (parse_dotted ts)
      else Some ([x], OP c # ts))"
| "parse_dotted (NAME x # ts) = (if is_identifier x then Some ([x], ts) else None)"
| "parse_dotted ts = None"

fun is_target :: "expr \<Rightarrow> bool" where
  "is_target (Name x) = True"
| "is_target (Attr e a) = True"
| "is_target (Subscript e k) = True"
| "is_target e = False"

definition ends_statement :: "token list \<Rightarrow> bool" where
  "ends_statement ts = (ts = [] \<or> ts = [OP (CHR '';'')])"

definition parse_stmt :: "token list \<Rightarrow> stmt option" where
  "parse_stmt ts =
     (let fuel = 2 * length ts + 2
      in case ts of
           [] \<Rightarrow> None
         | t # rest \<Rightarrow>
             if t = NAME ''import'' then
               (case parse_dotted rest of
                  Some (m, []) \<Rightarrow> Some (Import m None)
                | Some (m, [NAME k, NAME a]) \<Rightarrow>
                    if k = ''as'' \<and> is_identifier a then Some (Import m (Some a)) else None
                | _ \<Rightarrow> None)
             else if t = NAME ''from'' then
               (case parse_dotted rest of
                  Some (m, [NAME k, NAME a]) \<Rightarrow>
                    if k = ''import'' \<and> is_identifier a then Some (FromImport m a) else None
                | _ \<Rightarrow> None)
             else
               (case parse_expr fuel ts of
                  None \<Rightarrow> None
                | Some (e, after) \<Rightarrow>
                    if ends_statement after then Some (Expr e)
                    else if after = [OP (CHR ''?'')] then Some (Help e)
                    else if hd after = OP (CHR ''='') \<and> is_target e then
                      (case parse_expr fuel (tl after) of
                         None \<Rightarrow> None
                       | Some (v, after') \<Rightarrow>
                           if ends_statement after' then Some (Assign e v) else None)
                    else None))"

fun those_stmts :: "stmt option list \<Rightarrow> stmt list option" where
  "those_stmts [] = Some []"
| "those_stmts (None # xs) = None"
| "those_stmts (Some s # xs) = map_option (Cons s) (those_stmts xs)"

definition parse_cell :: "cell \<Rightarrow> stmt list option" where
  "parse_cell c =
     (case logical_lines c of
        None \<Rightarrow> None
      | Some ls \<Rightarrow> those_stmts (map parse_stmt ls))"

section \<open>Execution\<close>

text \<open>
  The notebooks define no function or class of their own: every attribute reference,
  call and subscription lands in pandas, GeoPandas, Fiona, the ArcGIS API or Python's
  built-ins. That code is not part of the repository, so it is a parameter of the
  model: a \<open>library\<close> gives, for every operation a cell can ask for, either the
  exception it raises or its result and the new state of the world outside the
  notebook (files, the network, and the libraries' own module-level data).
\<close>

datatype 'o val =
    VNone
  | VBool bool
  | VNum string
  | VStr string
  | VTuple "'o val list"
  | VObj 'o

datatype exn = SyntaxError | NameError string | Raised string

record ('o, 'w) library =
  lib_import :: "string list \<Rightarrow> 'w \<Rightarrow> exn + 'o val \<times> 'w"
  lib_import_from :: "string list \<Rightarrow> string \<Rightarrow> 'w \<Rightarrow> exn + 'o val \<times> 'w"
  lib_builtin :: "string \<Rightarrow> 'o val option"
  lib_getattr :: "'o val \<Rightarrow> string \<Rightarrow> 'w \<Rightarrow> exn + 'o val \<times> 'w"
  lib_call :: "'o val \<Rightarrow> 'o val list \<Rightarrow> (string \<times> 'o val) list \<Rightarrow> 'w \<Rightarrow> exn + 'o val \<times> 'w"
  lib_getitem :: "'o val \<Rightarrow> 'o val \<Rightarrow> 'w \<Rightarrow> exn + 'o val \<times> 'w"
  lib_setattr :: "'o val \<Rightarrow> string \<Rightarrow> 'o val \<Rightarrow> 'w \<Rightarrow> exn + 'w"
  lib_setitem :: "'o val \<Rightarrow> 'o val \<Rightarrow> 'o val \<Rightarrow> 'w \<Rightarrow> exn + 'w"

text \<open>
  The kernel's state between two cells: the names the notebook has bound so far, and
  the world.
\<close>

record ('o, 'w) kernel =
  names :: "string \<rightharpoonup> 'o val"
  world :: 'w

text \<open>
  Expressions are evaluated left to right; the first exception ends the evaluation and
  is its result. A name is looked up among the notebook's names, then among the
  built-ins.
\<close>

fun eval_expr :: "('o, 'w) library \<Rightarrow> (string \<rightharpoonup> 'o val) \<Rightarrow> expr \<Rightarrow> 'w \<Rightarrow> exn + 'o val \<times> 'w"
  and eval_exprs :: "('o, 'w) library \<Rightarrow> (string \<rightharpoonup> 'o val) \<Rightarrow> expr list \<Rightarrow> 'w \<Rightarrow> exn + 'o val list \<times> 'w"
  and eval_args :: "('o, 'w) library \<Rightarrow> (string \<rightharpoonup> 'o val) \<Rightarrow> arg list \<Rightarrow> 'w
                      \<Rightarrow> exn + ('o val list \<times> (string \<times> 'o val) list) \<times> 'w"
where
  "eval_expr L ns (Name x) w =
     (case ns x of
        Some v \<Rightarrow> Inr (v, w)
      | None \<Rightarrow> (case lib_builtin L x of Some v \<Rightarrow> Inr (v, w) | None \<Rightarrow> Inl (NameError x)))"
| "eval_expr L ns (Const c) w =
     Inr (if c = ''True'' then VBool True else if c = ''False'' then VBool False else VNone, w)"
| "eval_expr L ns (Num n) w = Inr (VNum n, w)"
| "eval_expr L ns (Str s) w = Inr (VStr s, w)"
| "eval_expr L ns (Tuple es) w =
     (case eval_exprs L ns es w of Inl x \<Rightarrow> Inl x | Inr (vs, w') \<Rightarrow> Inr (VTuple vs, w'))"
| "eval_expr L ns (Attr e a) w =
     (case eval_expr L ns e w of Inl x \<Rightarrow> Inl x | Inr (v, w') \<Rightarrow> lib_getattr L v a w')"
| "eval_expr L ns (Call f as) w =
     (case eval_expr L ns f w of
        Inl x \<Rightarrow> Inl x
      | Inr (fv, w1) \<Rightarrow>
          (case eval_args L ns as w1 of
             Inl x \<Rightarrow> Inl x
           | Inr ((pos, kws), w2) \<Rightarrow> lib_call L fv pos kws w2))"
| "eval_expr L ns (Subscript e k) w =
     (case eval_expr L ns e w of
        Inl x \<Rightarrow> Inl x
      | Inr (v, w1) \<Rightarrow>
          (case eval_expr L ns k w1 of
             Inl x \<Rightarrow> Inl x
           | Inr (kv, w2) \<Rightarrow> lib_getitem L v kv w2))"
| "eval_exprs L ns [] w = Inr ([], w)"
| "eval_exprs L ns (e # es) w =
     (case eval_expr L ns e w of
        Inl x \<Rightarrow> Inl x
      | Inr (v, w1) \<Rightarrow>
          (case eval_exprs L ns es w1 of Inl x \<Rightarrow> Inl x | Inr (vs, w2) \<Rightarrow> Inr (v # vs, w2)))"
| "eval_args L ns [] w = Inr (([], []), w)"
| "eval_args L ns (Pos e # as) w =
     (case eval_expr L ns e w of
        Inl x \<Rightarrow> Inl x
      | Inr (v, w1) \<Rightarrow>
          (case eval_args L ns as w1 of
             Inl x \<Rightarrow> Inl x
           | Inr ((pos, kws), w2) \<Rightarrow> Inr ((v # pos, kws), w2)))"
| "eval_args L ns (Kw k e # as) w =
     (case eval_expr L ns e w of
        Inl x \<Rightarrow> Inl x
      | Inr (v, w1) \<Rightarrow>
          (case eval_args L ns as w1 of
             Inl x \<Rightarrow> Inl x
           | Inr ((pos, kws), w2) \<Rightarrow> Inr ((pos, (k, v) # kws), w2)))"

text \<open>
  A statement takes the kernel to its next state or raises. An assignment evaluates
  its right-hand side first. \<open>import a.b as c\<close> binds \<open>c\<close> to the module
  \<open>a.b\<close>; \<open>import a.b\<close> binds \<open>a\<close> to the package \<open>a\<close>. The help
  query \<open>obj?\<close> prints documentation, or that the object was not found; it neither
  binds nor raises.
\<close>

fun exec_stmt :: "('o, 'w) library \<Rightarrow> ('o, 'w) kernel \<Rightarrow> stmt \<Rightarrow> exn + ('o, 'w) kernel" where
  "exec_stmt L k (Import m (Some a)) =
     (case lib_import L m (world k) of
        Inl x \<Rightarrow> Inl x
      | Inr (v, w') \<Rightarrow> Inr (k\<lparr>names := (names k)(a \<mapsto> v), world := w'\<rparr>))"
| "exec_stmt L k (Import m None) =
     (case lib_import L m (world k) of
        Inl x \<Rightarrow> Inl x
      | Inr (v, w1) \<Rightarrow>
          (case (if length m \<le> 1 then Inr (v, w1) else lib_import L (take 1 m) w1) of
             Inl x \<Rightarrow> Inl x
           | Inr (p, w2) \<Rightarrow> Inr (k\<lparr>names := (names k)(concat (take 1 m) \<mapsto> p), world := w2\<rparr>)))"
| "exec_stmt L k (FromImport m a) =
     (case lib_import_from L m a (world k) of
        Inl x \<Rightarrow> Inl x
      | Inr (v, w') \<Rightarrow> Inr (k\<lparr>names := (names k)(a \<mapsto> v), world := w'\<rparr>))"
| "exec_stmt L k (Assign (Name x) e) =
     (case eval_expr L (names k) e (world k) of
        Inl x \<Rightarrow> Inl x
      | Inr (v, w') \<Rightarrow> Inr (k\<lparr>names := (names k)(x \<mapsto> v), world := w'\<rparr>))"
| "exec_stmt L k (Assign (Attr t a) e) =
     (case eval_expr L (names k) e (world k) of
        Inl x \<Rightarrow> Inl x
      | Inr (v, w1) \<Rightarrow>
          (case eval_expr L (names k) t w1 of
             Inl x \<Rightarrow> Inl x
           | Inr (tv, w2) \<Rightarrow>
               (case lib_setattr L tv a v w2 of
                  Inl x \<Rightarrow> Inl x
                | Inr w3 \<Rightarrow> Inr (k\<lparr>world := w3\<rparr>))))"
| "exec_stmt L k (Assign (Subscript t i) e) =
     (case eval_expr L (names k) e (world k) of
        Inl x \<Rightarrow> Inl x
      | Inr (v, w1) \<Rightarrow>
          (case eval_expr L (names k) t w1 of
             Inl x \<Rightarrow> Inl x
           | Inr (tv, w2) \<Rightarrow>
               (case eval_expr L (names k) i w2 of
                  Inl x \<Rightarrow> Inl x
                | Inr (iv, w3) \<Rightarrow>
                    (case lib_setitem L tv iv v w3 of
                       Inl x \<Rightarrow> Inl x
                     | Inr w4 \<Rightarrow> Inr (k\<lparr>world := w4\<rparr>)))))"
| "exec_stmt L k (Assign t e) = Inl SyntaxError"
| "exec_stmt L k (Expr e) =
     (case eval_expr L (names k) e (world k) of
        Inl x \<Rightarrow> Inl x
      | Inr (v, w') \<Rightarrow> Inr (k\<lparr>world := w'\<rparr>))"
| "exec_stmt L k (Help e) = Inr k"

fun exec_stmts :: "('o, 'w) library \<Rightarrow> ('o, 'w) kernel \<Rightarrow> stmt list \<Rightarrow> exn + ('o, 'w) kernel" where
  "exec_stmts L k [] = Inr k"
| "exec_stmts L k (s # ss) =
     (case exec_stmt L k s of Inl x \<Rightarrow> Inl x | Inr k' \<Rightarrow> exec_stmts L k' ss)"

text \<open>
  The kernel compiles a cell before it runs any of it: a cell that does not parse
  raises a syntax error and runs nothing.
\<close>

definition run_cell :: "('o, 'w) library \<Rightarrow> ('o, 'w) kernel \<Rightarrow> cell \<Rightarrow> exn + ('o, 'w) kernel" where
  "run_cell L k c =
     (case parse_cell c of None \<Rightarrow> Inl SyntaxError | Some ss \<Rightarrow> exec_stmts L k ss)"

text \<open>Running a notebook from the top stops at the first cell that raises.\<close>

fun run_all :: "('o, 'w) library \<Rightarrow> ('o, 'w) kernel \<Rightarrow> notebook \<Rightarrow> exn + ('o, 'w) kernel" where
  "run_all L k [] = Inr k"
| "run_all L k (c # cs) =
     (case run_cell L k c of Inl x \<Rightarrow> Inl x | Inr k' \<Rightarrow> run_all L k' cs)"

section \<open>What the cells contain\<close>

subsection \<open>Reserved words of control flow\<close>

definition handling_words :: "string list" where
  "handling_words = [''try'', ''except'', ''finally'', ''with'', ''raise'', ''assert'']"

definition loop_words :: "string list" where
  "loop_words = [''for'', ''while'', ''break'', ''continue'']"

definition control_words :: "string list" where
  "control_words =
     handling_words @ loop_words @
     [''if'', ''elif'', ''else'', ''and'', ''or'', ''not'', ''def'', ''class'', ''lambda'',
      ''return'', ''yield'', ''async'', ''await'', ''pass'']"

fun token_words :: "token list \<Rightarrow> string list" where
  "token_words [] = []"
| "token_words (NAME x # ts) = x # token_words ts"
| "token_words (_ # ts) = token_words ts"

text \<open>
  The words of a cell's code: the name tokens outside comments and string literals.
  A cell that cannot be cut into tokens has no word list.
\<close>

definition cell_words :: "cell \<Rightarrow> string list option" where
  "cell_words c = map_option (\<lambda>ls. token_words (concat ls)) (logical_lines c)"

definition uses_word_of :: "string list \<Rightarrow> cell \<Rightarrow> bool" where
  "uses_word_of ws c =
     (case cell_words c of None \<Rightarrow> True | Some xs \<Rightarrow> list_ex (\<lambda>x. x \<in> set ws) xs)"

subsection \<open>Statements of a notebook\<close>

definition cell_stmts :: "cell \<Rightarrow> stmt list" where
  "cell_stmts c = (case parse_cell c of None \<Rightarrow> [] | Some ss \<Rightarrow> ss)"

definition notebook_stmts :: "notebook \<Rightarrow> stmt list" where
  "notebook_stmts nb = concat (map cell_stmts nb)"

text \<open>The two notebooks of the repository.\<close>

definition repository :: "notebook list" where
  "repository = [arcgis_notebook, geopandas_notebook]"

definition repository_cells :: "cell list" where
  "repository_cells = concat repository"

subsection \<open>Strings handed to the libraries\<close>

text \<open>
  Every argument of every call in an expression, in the order of the text, each with
  the name the call is made by: the last name of the callee.
\<close>

fun callee_name :: "expr \<Rightarrow> string" where
  "callee_name (Name x) = x"
| "callee_name (Attr e a) = a"
| "callee_name e = []"

fun call_arguments :: "expr \<Rightarrow> (string \<times> expr) list"
  and call_arguments_list :: "expr list \<Rightarrow> (string \<times> expr) list"
  and call_arguments_args :: "string \<Rightarrow> arg list \<Rightarrow> (string \<times> expr) list"
where
  "call_arguments (Name x) = []"
| "call_arguments (Const c) = []"
| "call_arguments (Num n) = []"
| "call_arguments (Str s) = []"
| "call_arguments (Attr e a) = call_arguments e"
| "call_arguments (Call f as) = call_arguments f @ call_arguments_args (callee_name f) as"
| "call_arguments (Subscript e k) = call_arguments e @ call_arguments k"
| "call_arguments (Tuple es) = call_arguments_list es"
| "call_arguments_list [] = []"
| "call_arguments_list (e # es) = call_arguments e @ call_arguments_list es"
| "call_arguments_args f [] = []"
| "call_arguments_args f (Pos e # as) = (f, e) # call_arguments e @ call_arguments_args f as"
| "call_arguments_args f (Kw k e # as) = (f, e) # call_arguments e @ call_arguments_args f as"

fun stmt_call_arguments :: "stmt \<Rightarrow> (string \<times> expr) list" where
  "stmt_call_arguments (Assign t e) = call_arguments e @ call_arguments t"
| "stmt_call_arguments (Expr e) = call_arguments e"
| "stmt_call_arguments s = []"

text \<open>The names a notebook binds to a string literal, with the literal.\<close>

fun string_bindings :: "stmt list \<Rightarrow> (string \<times> string) list" where
  "string_bindings [] = []"
| "string_bindings (Assign (Name x) (Str s) # ss) = (x, s) # string_bindings ss"
| "string_bindings (_ # ss) = string_bindings ss"

fun known_string :: "(string \<times> string) list \<Rightarrow> string \<times> expr \<Rightarrow> (string \<times> string) option" where
  "known_string bs (f, Str s) = Some (f, s)"
| "known_string bs (f, Name x) = map_option (Pair f) (map_of bs x)"
| "known_string bs (f, e) = None"

text \<open>
  The strings a notebook passes to calls, each with the name of the call: literal
  arguments, and arguments that are a name the notebook has bound to a literal.
\<close>

definition strings_passed :: "notebook \<Rightarrow> (string \<times> string) list" where
  "strings_passed nb =
     (let ss = notebook_stmts nb
      in List.map_filter (known_string (string_bindings ss)) (concat (map stmt_call_arguments ss)))"

definition is_url :: "string \<Rightarrow> bool" where
  "is_url s = (take 7 s = ''http://'' \<or> take 8 s = ''https://'')"

definition is_local_path :: "string \<Rightarrow> bool" where
  "is_local_path s = (\<not> is_url s \<and> CHR ''/'' \<in> set s)"

definition basename :: "string \<Rightarrow> string" where
  "basename s = rev (takeWhile (\<lambda>c. c \<noteq> CHR ''/'') (rev s))"

text \<open>Which call is handed which local file, and which URL.\<close>

definition file_reads :: "notebook list \<Rightarrow> (string \<times> string) list" where
  "file_reads nbs =
     remdups (map (\<lambda>(f, s). (f, basename s))
                (filter (\<lambda>(f, s). is_local_path s) (concat (map strings_passed nbs))))"

definition local_files_read :: "notebook list \<Rightarrow> string list" where
  "local_files_read nbs = remdups (map snd (file_reads nbs))"

definition url_reads :: "notebook list \<Rightarrow> (string \<times> string) list" where
  "url_reads nbs = remdups (filter (\<lambda>(f, s). is_url s) (concat (map strings_passed nbs)))"

definition urls_defined :: "notebook list \<Rightarrow> (string \<times> string) list" where
  "urls_defined nbs =
     filter (\<lambda>(x, s). is_url s) (concat (map (\<lambda>nb. string_bindings (notebook_stmts nb)) nbs))"

subsection \<open>Assignments that store into an object\<close>

fun root_name :: "expr \<Rightarrow> string option" where
  "root_name (Name x) = Some x"
| "root_name (Attr e a) = root_name e"
| "root_name (Subscript e k) = root_name e"
| "root_name (Call f as) = root_name f"
| "root_name e = None"

fun imported_name :: "stmt \<Rightarrow> string option" where
  "imported_name (Import m (Some a)) = Some a"
| "imported_name (Import m None) = Some (concat (take 1 m))"
| "imported_name (FromImport m a) = Some a"
| "imported_name s = None"

text \<open>
  An assignment to a plain name binds a notebook variable. Any other target stores into
  the object the target's prefix evaluates to.
\<close>

fun stores_into_object :: "stmt \<Rightarrow> bool" where
  "stores_into_object (Assign (Name x) e) = False"
| "stores_into_object (Assign t e) = True"
| "stores_into_object s = False"

fun stores_into_import :: "string list \<Rightarrow> stmt \<Rightarrow> bool" where
  "stores_into_import imps (Assign (Name x) e) = False"
| "stores_into_import imps (Assign t e) =
     (case root_name t of None \<Rightarrow> False | Some r \<Rightarrow> r \<in> set imps)"
| "stores_into_import imps s = False"

definition imports_of :: "notebook \<Rightarrow> string list" where
  "imports_of nb = List.map_filter imported_name (notebook_stmts nb)"

definition storing_cells :: "notebook \<Rightarrow> cell list" where
  "storing_cells nb = filter (\<lambda>c. list_ex stores_into_object (cell_stmts c)) nb"

definition library_storing_cells :: "notebook \<Rightarrow> cell list" where
  "library_storing_cells nb =
     filter (\<lambda>c. list_ex (stores_into_import (imports_of nb)) (cell_stmts c)) nb"

section \<open>A scripted library\<close>

text \<open>
  To run cells on concrete inputs, a stand-in for the libraries: an object is known by
  the path of names that reached it, the world is the log of the calls made and the
  values stored, and \<open>raises\<close> says which callable raises which exception. It
  stands for no real library; the theorems below hold for every library, and this
  one only instantiates them.
\<close>

type_synonym path = "string list"

datatype event =
    Called path "path val list" "(string \<times> path val) list"
  | Stored "path val" "path val" "path val"

definition scripted_library :: "(path \<Rightarrow> exn option) \<Rightarrow> (path, event list) library" where
  "scripted_library raises =
     \<lparr> lib_import = (\<lambda>m w. Inr (VObj m, w)),
       lib_import_from = (\<lambda>m a w. Inr (VObj (m @ [a]), w)),
       lib_builtin = (\<lambda>x. if x = ''type'' then Some (VObj [''builtins'', x]) else None),
       lib_getattr =
         (\<lambda>v a w. case v of VObj p \<Rightarrow> Inr (VObj (p @ [a]), w) | _ \<Rightarrow> Inl (Raised ''AttributeError'')),
       lib_call =
         (\<lambda>f pos kws w.
            case f of
              VObj p \<Rightarrow>
                (case raises p of
                   Some x \<Rightarrow> Inl x
                 | None \<Rightarrow> Inr (VObj (p @ [''()'']), w @ [Called p pos kws]))
            | _ \<Rightarrow> Inl (Raised ''TypeError'')),
       lib_getitem =
         (\<lambda>v i w. case v of VObj p \<Rightarrow> Inr (VObj (p @ [''[]'']), w) | _ \<Rightarrow> Inl (Raised ''TypeError'')),
       lib_setattr = (\<lambda>v a x w. Inr (w @ [Stored v (VStr a) x])),
       lib_setitem = (\<lambda>v i x w. Inr (w @ [Stored v i x])) \<rparr>"

text \<open>What a run leaves in the world, or the exception that ended it.\<close>

definition outcome :: "exn + ('o, 'w) kernel \<Rightarrow> exn + 'w" where
  "outcome r = (case r of Inl x \<Rightarrow> Inl x | Inr k \<Rightarrow> Inr (world k))"

definition no_failures :: "path \<Rightarrow> exn option" where
  "no_failures p = None"

definition fails_at :: "path \<Rightarrow> exn \<Rightarrow> path \<Rightarrow> exn option" where
  "fails_at q x p = (if p = q then Some x else None)"

text \<open>
  A kernel in which \<open>gpd\<close> is the module \<open>geopandas\<close>, as the GeoPandas
  notebook's first cell binds it, and nothing has been called or stored yet.
\<close>

definition kernel_with_gpd :: "(path, event list) kernel" where
  "kernel_with_gpd = \<lparr> names = [''gpd'' \<mapsto> VObj [''geopandas'']], world = [] \<rparr>"

text \<open>The same library, but refusing every attribute and item assignment.\<close>

definition read_only :: "('o, 'w) library \<Rightarrow> ('o, 'w) library" where
  "read_only L =
     L\<lparr> lib_setattr := (\<lambda>v a x w. Inl (Raised ''TypeError'')),
        lib_setitem := (\<lambda>v i x w. Inl (Raised ''TypeError'')) \<rparr>"

section \<open>Library operations and faults\<close>

text \<open>
  The library operations a statement performs when none of them raises, counted from
  its text: one for every import, attribute reference, call, subscription and store.
  Looking a name up is no library operation, and the help query performs none.
\<close>

fun expr_ops :: "expr \<Rightarrow> nat"
  and exprs_ops :: "expr list \<Rightarrow> nat"
  and args_ops :: "arg list \<Rightarrow> nat"
where
  "expr_ops (Name x) = 0"
| "expr_ops (Const c) = 0"
| "expr_ops (Num n) = 0"
| "expr_ops (Str s) = 0"
| "expr_ops (Tuple es) = exprs_ops es"
| "expr_ops (Attr e a) = expr_ops e + 1"
| "expr_ops (Call f as) = expr_ops f + args_ops as + 1"
| "expr_ops (Subscript e k) = expr_ops e + expr_ops k + 1"
| "exprs_ops [] = 0"
| "exprs_ops (e # es) = expr_ops e + exprs_ops es"
| "args_ops [] = 0"
| "args_ops (Pos e # as) = expr_ops e + args_ops as"
| "args_ops (Kw k e # as) = expr_ops e + args_ops as"

fun stmt_ops :: "stmt \<Rightarrow> nat" where
  "stmt_ops (Import m (Some a)) = 1"
| "stmt_ops (Import m None) = (if length m \<le> 1 then 1 else 2)"
| "stmt_ops (FromImport m a) = 1"
| "stmt_ops (Assign (Name x) e) = expr_ops e"
| "stmt_ops (Assign (Attr t a) e) = expr_ops e + expr_ops t + 1"
| "stmt_ops (Assign (Subscript t i) e) = expr_ops e + expr_ops t + expr_ops i + 1"
| "stmt_ops (Assign t e) = 0"
| "stmt_ops (Expr e) = expr_ops e"
| "stmt_ops (Help e) = 0"

definition stmts_ops :: "stmt list \<Rightarrow> nat" where
  "stmts_ops ss = sum_list (map stmt_ops ss)"

definition cell_ops :: "cell \<Rightarrow> nat" where
  "cell_ops c = stmts_ops (cell_stmts c)"

text \<open>
  A library with a fault. \<open>faulty n x L\<close> is the library \<open>L\<close> made to count
  the operations asked of it, in a counter kept beside \<open>L\<close>'s world, and to raise
  \<open>x\<close> in place of the operation asked when the counter stands at \<open>n\<close>. Every
  other operation is \<open>L\<close>'s own, result and exception alike. This is how a file
  that turns out malformed, or a network that fails, at one call of an otherwise
  working library is put to a cell.
\<close>

definition tick :: "nat \<Rightarrow> exn \<Rightarrow> ('w \<Rightarrow> exn + 'a \<times> 'w) \<Rightarrow> nat \<times> 'w \<Rightarrow> exn + 'a \<times> nat \<times> 'w" where
  "tick n x op cw =
     (if fst cw = n then Inl x
      else (case op (snd cw) of
              Inl e \<Rightarrow> Inl e
            | Inr (v, w') \<Rightarrow> Inr (v, (Suc (fst cw), w'))))"

definition tick_store :: "nat \<Rightarrow> exn \<Rightarrow> ('w \<Rightarrow> exn + 'w) \<Rightarrow> nat \<times> 'w \<Rightarrow> exn + nat \<times> 'w" where
  "tick_store n x op cw =
     (if fst cw = n then Inl x
      else (case op (snd cw) of
              Inl e \<Rightarrow> Inl e
            | Inr w' \<Rightarrow> Inr (Suc (fst cw), w')))"

definition faulty :: "nat \<Rightarrow> exn \<Rightarrow> ('o, 'w) library \<Rightarrow> ('o, nat \<times> 'w) library" where
  "faulty n x L =
     \<lparr> lib_import = (\<lambda>m. tick n x (lib_import L m)),
       lib_import_from = (\<lambda>m a. tick n x (lib_import_from L m a)),
       lib_builtin = lib_builtin L,
       lib_getattr = (\<lambda>v a. tick n x (lib_getattr L v a)),
       lib_call = (\<lambda>f pos kws. tick n x (lib_call L f pos kws)),
       lib_getitem = (\<lambda>v i. tick n x (lib_getitem L v i)),
       lib_setattr = (\<lambda>v a y. tick_store n x (lib_setattr L v a y)),
       lib_setitem = (\<lambda>v i y. tick_store n x (lib_setitem L v i y)) \<rparr>"

text \<open>The kernel \<open>k\<close> with the counter at \<open>c\<close>.\<close>

definition at_count :: "nat \<Rightarrow> ('o, 'w) kernel \<Rightarrow> ('o, nat \<times> 'w) kernel" where
  "at_count c k = \<lparr> names = names k, world = (c, world k) \<rparr>"

text \<open>An outcome on \<open>L\<close>, with the counter put beside its world.\<close>

definition counted :: "nat \<Rightarrow> exn + 'a \<times> 'w \<Rightarrow> exn + 'a \<times> nat \<times> 'w" where
  "counted c r = (case r of Inl e \<Rightarrow> Inl e | Inr (v, w) \<Rightarrow> Inr (v, (c, w)))"

definition with_count :: "nat \<Rightarrow> exn + ('o, 'w) kernel \<Rightarrow> exn + ('o, nat \<times> 'w) kernel" where
  "with_count c r = (case r of Inl e \<Rightarrow> Inl e | Inr k \<Rightarrow> Inr (at_count c k))"

section \<open>Facts about the interpreter\<close>

text \<open>
  A name followed by a dot and nothing else is no expression, however deep the parser
  may descend.
\<close>

lemma dangling_dot_never_parses:
  "parse_expr n [NAME x, OP (CHR ''.'')] = None"
proof (cases n)
  case 0
  then show ?thesis by simp
next
  case (Suc m)
  then show ?thesis by (cases m) simp_all
qed

lemma run_cell_parsed:
  "parse_cell c = Some ss \<Longrightarrow> run_cell L k c = exec_stmts L k ss"
  by (simp add: run_cell_def)

lemma run_cell_unparsed:
  "parse_cell c = None \<Longrightarrow> run_cell L k c = Inl SyntaxError"
  by (simp add: run_cell_def)

text \<open>A notebook with a cell that does not parse never runs to its end.\<close>

lemma run_all_stops:
  "parse_cell c = None \<Longrightarrow> c \<in> set cs \<Longrightarrow> \<exists>x. run_all L k cs = Inl x"
proof (induction cs arbitrary: k)
  case Nil
  then show ?case by simp
next
  case (Cons d cs)
  show ?case
  proof (cases "run_cell L k d")
    case (Inl x)
    then show ?thesis by simp
  next
    case (Inr k')
    with Cons.prems have "d \<noteq> c"
      by (auto simp: run_cell_unparsed)
    with Cons.prems have "c \<in> set cs" by simp
    from Cons.IH [OF Cons.prems(1) this, of k'] Inr show ?thesis by simp
  qed
qed

text \<open>
  Evaluating an expression never stores: it asks the library for attributes, items and
  calls only. So a statement that binds a plain name, evaluates an expression, imports
  or asks for help runs the same whatever attribute and item assignment would do.
\<close>

lemma eval_ignores_stores:
  "eval_expr (L\<lparr>lib_setattr := g, lib_setitem := f\<rparr>) ns e w = eval_expr L ns e w"
  "eval_exprs (L\<lparr>lib_setattr := g, lib_setitem := f\<rparr>) ns es w = eval_exprs L ns es w"
  "eval_args (L\<lparr>lib_setattr := g, lib_setitem := f\<rparr>) ns as w = eval_args L ns as w"
  by (induction L ns e w and L ns es w and L ns as w
      rule: eval_expr_eval_exprs_eval_args.induct)
     (auto split: sum.splits option.splits)

lemma exec_stmt_ignores_stores:
  "\<not> stores_into_object s \<Longrightarrow>
   exec_stmt (L\<lparr>lib_setattr := g, lib_setitem := f\<rparr>) k s = exec_stmt L k s"
  by (cases "(L, k, s)" rule: exec_stmt.cases)
     (auto simp: eval_ignores_stores cong: if_cong split: sum.splits)

lemma exec_stmts_ignore_stores:
  "\<not> list_ex stores_into_object ss \<Longrightarrow>
   exec_stmts (L\<lparr>lib_setattr := g, lib_setitem := f\<rparr>) k ss = exec_stmts L k ss"
  by (induction ss arbitrary: k) (auto simp: exec_stmt_ignores_stores split: sum.splits)

lemma run_cell_ignores_stores:
  "\<not> list_ex stores_into_object (cell_stmts c) \<Longrightarrow>
   run_cell (L\<lparr>lib_setattr := g, lib_setitem := f\<rparr>) k c = run_cell L k c"
  by (cases "parse_cell c") (auto simp: run_cell_def cell_stmts_def exec_stmts_ignore_stores)

text \<open>
  An expression that evaluates on \<open>L\<close> raises \<open>x\<close> on the faulty library exactly
  when the fault falls on one of its operations; otherwise it evaluates as on \<open>L\<close>.
\<close>

lemma eval_faulty:
  "eval_expr L ns e w = Inr (v, w') \<Longrightarrow>
   eval_expr (faulty n x L) ns e (c, w) =
     (if c \<le> n \<and> n < c + expr_ops e then Inl x else Inr (v, (c + expr_ops e, w')))"
  "eval_exprs L ns es w = Inr (vs, w') \<Longrightarrow>
   eval_exprs (faulty n x L) ns es (c, w) =
     (if c \<le> n \<and> n < c + exprs_ops es then Inl x else Inr (vs, (c + exprs_ops es, w')))"
  "eval_args L ns as w = Inr (pk, w') \<Longrightarrow>
   eval_args (faulty n x L) ns as (c, w) =
     (if c \<le> n \<and> n < c + args_ops as then Inl x else Inr (pk, (c + args_ops as, w')))"
proof (induction L ns e w and L ns es w and L ns as w arbitrary: v w' c and vs w' c and pk w' c
       rule: eval_expr_eval_exprs_eval_args.induct)
  case (1 L ns y w)
  then show ?case
    by (auto simp: faulty_def split: option.splits)
next
  case (2 L ns b w)
  then show ?case by auto
next
  case (3 L ns m w)
  then show ?case by auto
next
  case (4 L ns s w)
  then show ?case by auto
next
  case (5 L ns es w)
  from "5.prems" obtain us where es: "eval_exprs L ns es w = Inr (us, w')"
    and v: "v = VTuple us"
    by (auto split: sum.splits)
  from "5.IH" [OF es, of c] v show ?case
    by simp
next
  case (6 L ns e a w)
  from "6.prems" obtain u w1 where e: "eval_expr L ns e w = Inr (u, w1)"
    and a: "lib_getattr L u a w1 = Inr (v, w')"
    by (auto split: sum.splits)
  from "6.IH" [OF e, of c] a show ?case
    by (auto simp: faulty_def tick_def)
next
  case (7 L ns f as w)
  from "7.prems" obtain fv w1 pos kws w2 where f: "eval_expr L ns f w = Inr (fv, w1)"
    and as: "eval_args L ns as w1 = Inr ((pos, kws), w2)"
    and call: "lib_call L fv pos kws w2 = Inr (v, w')"
    by (auto split: sum.splits)
  from "7.IH"(1) [OF f, of c] "7.IH"(2) [OF f refl as, of "c + expr_ops f"] call
  show ?case
    by (auto simp: faulty_def tick_def)
next
  case (8 L ns e k w)
  from "8.prems" obtain u w1 kv w2 where e: "eval_expr L ns e w = Inr (u, w1)"
    and k: "eval_expr L ns k w1 = Inr (kv, w2)"
    and item: "lib_getitem L u kv w2 = Inr (v, w')"
    by (auto split: sum.splits)
  from "8.IH"(1) [OF e, of c] "8.IH"(2) [OF e refl k, of "c + expr_ops e"] item
  show ?case
    by (auto simp: faulty_def tick_def)
next
  case (9 L ns w)
  then show ?case by auto
next
  case (10 L ns e es w)
  from "10.prems" obtain u w1 us where e: "eval_expr L ns e w = Inr (u, w1)"
    and es: "eval_exprs L ns es w1 = Inr (us, w')" and vs: "vs = u # us"
    by (auto split: sum.splits)
  from "10.IH"(1) [OF e, of c] "10.IH"(2) [OF e refl es, of "c + expr_ops e"] vs
  show ?case
    by auto
next
  case (11 L ns w)
  then show ?case by auto
next
  case (12 L ns e as w)
  from "12.prems" obtain u w1 pos kws where e: "eval_expr L ns e w = Inr (u, w1)"
    and as: "eval_args L ns as w1 = Inr ((pos, kws), w')" and pk: "pk = (u # pos, kws)"
    by (auto split: sum.splits)
  from "12.IH"(1) [OF e, of c] "12.IH"(2) [OF e refl as, of "c + expr_ops e"] pk
  show ?case
    by auto
next
  case (13 L ns k e as w)
  from "13.prems" obtain u w1 pos kws where e: "eval_expr L ns e w = Inr (u, w1)"
    and as: "eval_args L ns as w1 = Inr ((pos, kws), w')" and pk: "pk = (pos, (k, u) # kws)"
    by (auto split: sum.splits)
  from "13.IH"(1) [OF e, of c] "13.IH"(2) [OF e refl as, of "c + expr_ops e"] pk
  show ?case
    by auto
qed

text \<open>The same for a statement, for a list of statements and for a cell.\<close>

lemma exec_stmt_faulty:
  assumes "exec_stmt L k s = Inr k'"
  shows "exec_stmt (faulty n x L) (at_count c k) s =
           (if c \<le> n \<and> n < c + stmt_ops s then Inl x
            else Inr (at_count (c + stmt_ops s) k'))"
proof (cases s)
  case (Import m a)
  with assms show ?thesis
    by (cases a)
       (auto simp: faulty_def tick_def at_count_def split: sum.splits if_splits)
next
  case (FromImport m a)
  with assms show ?thesis
    by (auto simp: faulty_def tick_def at_count_def split: sum.splits if_splits)
next
  case (Assign t e)
  show ?thesis
  proof (cases t)
    case (Name y)
    with assms Assign obtain v w1 where e: "eval_expr L (names k) e (world k) = Inr (v, w1)"
      and k': "k' = k\<lparr>names := (names k)(y \<mapsto> v), world := w1\<rparr>"
      by (auto split: sum.splits)
    from eval_faulty(1) [OF e, of n x c] Assign Name k' show ?thesis
      by (auto simp: at_count_def)
  next
    case (Attr u a)
    with assms Assign obtain v w1 tv w2 w3
      where e: "eval_expr L (names k) e (world k) = Inr (v, w1)"
        and u: "eval_expr L (names k) u w1 = Inr (tv, w2)"
        and store: "lib_setattr L tv a v w2 = Inr w3"
        and k': "k' = k\<lparr>world := w3\<rparr>"
      by (auto split: sum.splits)
    from eval_faulty(1) [OF e, of n x c] eval_faulty(1) [OF u, of n x "c + expr_ops e"]
      store Assign Attr k'
    show ?thesis
      by (auto simp: at_count_def faulty_def tick_store_def)
  next
    case (Subscript u i)
    with assms Assign obtain v w1 tv w2 iv w3 w4
      where e: "eval_expr L (names k) e (world k) = Inr (v, w1)"
        and u: "eval_expr L (names k) u w1 = Inr (tv, w2)"
        and i: "eval_expr L (names k) i w2 = Inr (iv, w3)"
        and store: "lib_setitem L tv iv v w3 = Inr w4"
        and k': "k' = k\<lparr>world := w4\<rparr>"
      by (auto split: sum.splits)
    from eval_faulty(1) [OF e, of n x c] eval_faulty(1) [OF u, of n x "c + expr_ops e"]
      eval_faulty(1) [OF i, of n x "c + expr_ops e + expr_ops u"] store Assign Subscript k'
    show ?thesis
      by (auto simp: at_count_def faulty_def tick_store_def)
  qed (insert assms Assign, auto)
next
  case (Expr e)
  with assms obtain v w1 where e: "eval_expr L (names k) e (world k) = Inr (v, w1)"
    and k': "k' = k\<lparr>world := w1\<rparr>"
    by (auto split: sum.splits)
  from eval_faulty(1) [OF e, of n x c] Expr k' show ?thesis
    by (auto simp: at_count_def)
next
  case (Help e)
  with assms show ?thesis
    by (auto simp: at_count_def)
qed

lemma exec_stmts_faulty:
  "exec_stmts L k ss = Inr k' \<Longrightarrow>
   exec_stmts (faulty n x L) (at_count c k) ss =
     (if c \<le> n \<and> n < c + stmts_ops ss then Inl x
      else Inr (at_count (c + stmts_ops ss) k'))"
proof (induction ss arbitrary: k c)
  case Nil
  then show ?case by (simp add: stmts_ops_def)
next
  case (Cons s ss)
  from Cons.prems obtain k1 where s: "exec_stmt L k s = Inr k1"
    and ss: "exec_stmts L k1 ss = Inr k'"
    by (auto split: sum.splits)
  from exec_stmt_faulty [OF s, of n x c] Cons.IH [OF ss, of "c + stmt_ops s"]
  show ?case
    by (auto simp: stmts_ops_def add.assoc)
qed

lemma run_cell_faulty:
  assumes "run_cell L k c = Inr k'"
  shows "run_cell (faulty n x L) (at_count 0 k) c =
           (if n < cell_ops c then Inl x else Inr (at_count (cell_ops c) k'))"
proof (cases "parse_cell c")
  case None
  with assms show ?thesis by (simp add: run_cell_def)
next
  case (Some ss)
  with assms have "exec_stmts L k ss = Inr k'"
    by (simp add: run_cell_def)
  from exec_stmts_faulty [OF this, of n x 0] Some show ?thesis
    by (simp add: run_cell_def cell_ops_def cell_stmts_def)
qed

text \<open>
  Whatever \<open>L\<close> does, the faulty library changes the outcome in one way only: the
  fault may come first. Otherwise the exception \<open>L\<close> raises is the exception
  raised, and the result \<open>L\<close> gives is the result.
\<close>

lemma eval_faulty_or_same:
  "eval_expr (faulty n x L) ns e (c, w) = Inl x
   \<or> eval_expr (faulty n x L) ns e (c, w) = counted (c + expr_ops e) (eval_expr L ns e w)"
  "eval_exprs (faulty n x L) ns es (c, w) = Inl x
   \<or> eval_exprs (faulty n x L) ns es (c, w) = counted (c + exprs_ops es) (eval_exprs L ns es w)"
  "eval_args (faulty n x L) ns as (c, w) = Inl x
   \<or> eval_args (faulty n x L) ns as (c, w) = counted (c + args_ops as) (eval_args L ns as w)"
proof (induction L ns e w and L ns es w and L ns as w arbitrary: c and c and c
       rule: eval_expr_eval_exprs_eval_args.induct)
  case (1 L ns y w)
  show ?case
    by (auto simp: counted_def faulty_def split: option.splits)
next
  case (5 L ns es w)
  from "5.IH" [of c] show ?case
    by (auto simp: counted_def split: sum.splits)
next
  case (6 L ns e a w)
  from "6.IH" [of c] show ?case
    by (auto simp: counted_def faulty_def tick_def split: sum.splits)
next
  case (7 L ns f as w)
  show ?case
  proof (cases "eval_expr L ns f w")
    case (Inl e')
    with "7.IH"(1) [of c] show ?thesis
      by (auto simp: counted_def)
  next
    case (Inr r)
    then obtain fv w1 where f: "eval_expr L ns f w = Inr (fv, w1)"
      by (cases r) auto
    from "7.IH"(1) [of c] "7.IH"(2) [OF f refl, of "c + expr_ops f"] f show ?thesis
      by (auto simp: counted_def faulty_def tick_def add.assoc split: sum.splits)
  qed
next
  case (8 L ns e k w)
  show ?case
  proof (cases "eval_expr L ns e w")
    case (Inl e')
    with "8.IH"(1) [of c] show ?thesis
      by (auto simp: counted_def)
  next
    case (Inr r)
    then obtain u w1 where e: "eval_expr L ns e w = Inr (u, w1)"
      by (cases r) auto
    from "8.IH"(1) [of c] "8.IH"(2) [OF e refl, of "c + expr_ops e"] e show ?thesis
      by (auto simp: counted_def faulty_def tick_def add.assoc split: sum.splits)
  qed
next
  case (10 L ns e es w)
  show ?case
  proof (cases "eval_expr L ns e w")
    case (Inl e')
    with "10.IH"(1) [of c] show ?thesis
      by (auto simp: counted_def)
  next
    case (Inr r)
    then obtain u w1 where e: "eval_expr L ns e w = Inr (u, w1)"
      by (cases r) auto
    from "10.IH"(1) [of c] "10.IH"(2) [OF e refl, of "c + expr_ops e"] e show ?thesis
      by (auto simp: counted_def add.assoc split: sum.splits)
  qed
next
  case (12 L ns e as w)
  show ?case
  proof (cases "eval_expr L ns e w")
    case (Inl e')
    with "12.IH"(1) [of c] show ?thesis
      by (auto simp: counted_def)
  next
    case (Inr r)
    then obtain u w1 where e: "eval_expr L ns e w = Inr (u, w1)"
      by (cases r) auto
    from "12.IH"(1) [of c] "12.IH"(2) [OF e refl, of "c + expr_ops e"] e show ?thesis
      by (auto simp: counted_def add.assoc split: sum.splits)
  qed
next
  case (13 L ns k e as w)
  show ?case
  proof (cases "eval_expr L ns e w")
    case (Inl e')
    with "13.IH"(1) [of c] show ?thesis
      by (auto simp: counted_def)
  next
    case (Inr r)
    then obtain u w1 where e: "eval_expr L ns e w = Inr (u, w1)"
      by (cases r) auto
    from "13.IH"(1) [of c] "13.IH"(2) [OF e refl, of "c + expr_ops e"] e show ?thesis
      by (auto simp: counted_def add.assoc split: sum.splits)
  qed
qed (simp_all add: counted_def)

lemma exec_stmt_faulty_or_same:
  "exec_stmt (faulty n x L) (at_count c k) s = Inl x
   \<or> exec_stmt (faulty n x L) (at_count c k) s = with_count (c + stmt_ops s) (exec_stmt L k s)"
proof (cases s)
  case (Import m a)
  then show ?thesis
    by (cases a)
       (auto simp: faulty_def tick_def at_count_def with_count_def split: sum.splits if_splits)
next
  case (FromImport m a)
  then show ?thesis
    by (auto simp: faulty_def tick_def at_count_def with_count_def split: sum.splits if_splits)
next
  case (Assign t e)
  note rhs = eval_faulty_or_same(1) [of n x L "names k" e c "world k"]
  show ?thesis
  proof (cases "eval_expr L (names k) e (world k)")
    case (Inl e')
    with rhs Assign show ?thesis
      by (cases t) (auto simp: counted_def with_count_def at_count_def)
  next
    case (Inr r)
    then obtain v w1 where e: "eval_expr L (names k) e (world k) = Inr (v, w1)"
      by (cases r) auto
    show ?thesis
    proof (cases t)
      case (Name y)
      with rhs e Assign show ?thesis
        by (auto simp: counted_def with_count_def at_count_def)
    next
      case (Attr u a)
      note target = eval_faulty_or_same(1) [of n x L "names k" u "c + expr_ops e" w1]
      from rhs target e Assign Attr show ?thesis
        by (auto simp: counted_def with_count_def at_count_def faulty_def tick_store_def
            add.assoc split: sum.splits)
    next
      case (Subscript u i)
      note target = eval_faulty_or_same(1) [of n x L "names k" u "c + expr_ops e" w1]
      show ?thesis
      proof (cases "eval_expr L (names k) u w1")
        case (Inl e')
        with rhs target e Assign Subscript show ?thesis
          by (auto simp: counted_def with_count_def at_count_def)
      next
        case (Inr r')
        then obtain tv w2 where u: "eval_expr L (names k) u w1 = Inr (tv, w2)"
          by (cases r') auto
        note index = eval_faulty_or_same(1)
          [of n x L "names k" i "c + expr_ops e + expr_ops u" w2]
        from rhs target index e u Assign Subscript show ?thesis
          by (auto simp: counted_def with_count_def at_count_def faulty_def tick_store_def
              add.assoc split: sum.splits)
      qed
    qed (insert Assign, auto simp: with_count_def at_count_def)
  qed
next
  case (Expr e)
  with eval_faulty_or_same(1) [of n x L "names k" e c "world k"] show ?thesis
    by (auto simp: counted_def with_count_def at_count_def split: sum.splits)
next
  case (Help e)
  then show ?thesis
    by (auto simp: with_count_def at_count_def)
qed

lemma exec_stmts_faulty_or_same:
  "exec_stmts (faulty n x L) (at_count c k) ss = Inl x
   \<or> exec_stmts (faulty n x L) (at_count c k) ss = with_count (c + stmts_ops ss) (exec_stmts L k ss)"
proof (induction ss arbitrary: k c)
  case Nil
  then show ?case by (simp add: stmts_ops_def with_count_def)
next
  case (Cons s ss)
  show ?case
  proof (cases "exec_stmt L k s")
    case (Inl e')
    with exec_stmt_faulty_or_same [of n x L c k s] show ?thesis
      by (auto simp: with_count_def)
  next
    case (Inr k1)
    with exec_stmt_faulty_or_same [of n x L c k s] Cons.IH [of "c + stmt_ops s" k1]
    show ?thesis
      by (auto simp: with_count_def stmts_ops_def add.assoc)
  qed
qed

lemma run_cell_faulty_or_same:
  "run_cell (faulty n x L) (at_count 0 k) c = Inl x
   \<or> run_cell (faulty n x L) (at_count 0 k) c = with_count (cell_ops c) (run_cell L k c)"
proof (cases "parse_cell c")
  case None
  then show ?thesis by (simp add: run_cell_def with_count_def)
next
  case (Some ss)
  with exec_stmts_faulty_or_same [of n x L 0 k ss] show ?thesis
    by (simp add: run_cell_def cell_ops_def cell_stmts_def)
qed

section \<open>The cells, parsed\<close>

text \<open>What the parser makes of each code cell, and the words of each cell.\<close>

lemma arcgis_parsed:
  "parse_cell arcgis_cell_6 =
     Some [Import [''pandas''] (Some ''pd''), FromImport [''arcgis''] ''GeoAccessor'']"
  "parse_cell arcgis_cell_7 =
     Some
       [Assign (Name ''df'')
         (Call (Attr (Name ''pd'') ''read_csv'')
           [Pos (Str ''../data/NC_Charging_Stations.csv'')])]"
  "parse_cell arcgis_cell_8 = Some [Help (Attr (Name ''GeoAccessor'') ''from_xy'')]"
  "parse_cell arcgis_cell_10 =
     Some
       [Assign (Name ''sdf'')
         (Call (Attr (Name ''GeoAccessor'') ''from_xy'')
           [Pos (Name ''df''), Kw ''x_column'' (Str ''Longitude''),
            Kw ''y_column'' (Str ''Latitude''), Kw ''sr'' (Num ''4326'')])]"
  "parse_cell arcgis_cell_12 = Some [Expr (Call (Attr (Name ''sdf'') ''head'') [])]"
  "parse_cell arcgis_cell_13 = Some [Expr (Call (Name ''type'') [Pos (Name ''sdf'')])]"
  "parse_cell arcgis_cell_15 =
     Some [Expr (Call (Name ''type'') [Pos (Attr (Name ''sdf'') ''spatial'')])]"
  "parse_cell arcgis_cell_16 =
     Some [Expr (Attr (Attr (Name ''sdf'') ''spatial'') ''centroid'')]"
  "parse_cell arcgis_cell_17 =
     Some [Expr (Call (Attr (Attr (Name ''sdf'') ''spatial'') ''plot'') [])]"
  "parse_cell arcgis_cell_20 =
     Some [Help (Attr (Name ''GeoAccessor'') ''from_featureclass'')]"
  "parse_cell arcgis_cell_21 =
     Some
       [Assign (Name ''sdf_shp'')
         (Call (Attr (Name ''GeoAccessor'') ''from_featureclass'')
           [Pos (Str ''../data/Major_Basins.shp'')])]"
  "parse_cell arcgis_cell_22 =
     Some [Expr (Call (Attr (Name ''sdf_shp'') ''head'') [])]"
  "parse_cell arcgis_cell_23 =
     Some [Expr (Attr (Attr (Name ''sdf_shp'') ''spatial'') ''sr'')]"
  "parse_cell arcgis_cell_24 =
     Some [Expr (Call (Attr (Attr (Name ''sdf_shp'') ''spatial'') ''plot'') [])]"
  "parse_cell arcgis_cell_26 = None"
  "parse_cell arcgis_cell_28 =
     Some [FromImport [''arcgis'', ''features''] ''FeatureLayer'']"
  "parse_cell arcgis_cell_29 =
     Some
       [Assign (Name ''state_layer_url'')
         (Str ''https://services.nconemap.gov/secure/rest/services/NC1Map_Regional_Boundaries/FeatureServer/0''),
        Assign (Name ''county_layer_url'')
         (Str ''https://services.nconemap.gov/secure/rest/services/NC1Map_Regional_Boundaries/FeatureServer/1'')]"
  "parse_cell arcgis_cell_30 =
     Some
       [Assign (Name ''state_layer'')
         (Call (Name ''FeatureLayer'') [Pos (Name ''state_layer_url'')]),
        Expr (Call (Name ''type'') [Pos (Name ''state_layer'')])]"
  "parse_cell arcgis_cell_31 =
     Some
       [Assign (Name ''sdf_state'')
         (Call (Attr (Name ''GeoAccessor'') ''from_layer'') [Pos (Name ''state_layer'')])]"
  "parse_cell arcgis_cell_32 =
     Some [Expr (Call (Attr (Name ''sdf_state'') ''info'') [])]"
  "parse_cell arcgis_cell_33 =
     Some [Expr (Attr (Attr (Name ''sdf_state'') ''spatial'') ''sr'')]"
  "parse_cell arcgis_cell_34 =
     Some [Expr (Call (Attr (Attr (Name ''sdf_state'') ''spatial'') ''plot'') [])]"
  "parse_cell arcgis_cell_35 = Some []"
  by code_simp+

lemma geopandas_parsed:
  "parse_cell geopandas_cell_6 =
     Some [Import [''pandas''] (Some ''pd''), Import [''geopandas''] (Some ''gpd'')]"
  "parse_cell geopandas_cell_7 =
     Some
       [Assign (Name ''df'')
         (Call (Attr (Name ''pd'') ''read_csv'')
           [Pos (Str ''../data/NC_Charging_Stations.csv'')])]"
  "parse_cell geopandas_cell_8 = Some [Expr (Call (Attr (Name ''df'') ''head'') [])]"
  "parse_cell geopandas_cell_10 = Some [Help (Attr (Name ''gpd'') ''points_from_xy'')]"
  "parse_cell geopandas_cell_12 =
     Some
       [Assign (Name ''geometries'')
         (Call (Attr (Name ''gpd'') ''points_from_xy'')
           [Kw ''x'' (Subscript (Name ''df'') (Str ''Longitude'')),
            Kw ''y'' (Subscript (Name ''df'') (Str ''Latitude''))])]"
  "parse_cell geopandas_cell_14 = Some [Help (Attr (Name ''gpd'') ''GeoDataFrame'')]"
  "parse_cell geopandas_cell_15 =
     Some
       [Assign (Name ''gdf_csv'')
         (Call (Attr (Name ''gpd'') ''GeoDataFrame'')
           [Kw ''data'' (Name ''df''), Kw ''geometry'' (Name ''geometries''),
            Kw ''crs'' (Num ''4326'')]),
        Expr (Call (Name ''type'') [Pos (Name ''gdf_csv'')])]"
  "parse_cell geopandas_cell_17 =
     Some [Expr (Call (Attr (Name ''gdf_csv'') ''head'') [])]"
  "parse_cell geopandas_cell_18 =
     Some [Expr (Call (Attr (Name ''gdf_csv'') ''info'') [])]"
  "parse_cell geopandas_cell_19 = Some [Expr (Attr (Name ''gdf_csv'') ''crs'')]"
  "parse_cell geopandas_cell_20 =
     Some [Expr (Call (Attr (Attr (Name ''gdf_csv'') ''crs'') ''to_epsg'') [])]"
  "parse_cell geopandas_cell_21 =
     Some
       [Assign (Name ''gdf_utm'')
         (Call (Attr (Name ''gdf_csv'') ''to_csv'') [Pos (Num ''32617'')])]"
  "parse_cell geopandas_cell_22 =
     Some
       [Expr
         (Call (Attr (Name ''gdf_csv'') ''plot'')
           [Kw ''color'' (Str ''Green''), Kw ''marker'' (Str ''x''),
            Kw ''alpha'' (Num ''0.3''), Kw ''figsize'' (Tuple [Num ''12'', Num ''7''])])]"
  "parse_cell geopandas_cell_26 = Some [Help (Attr (Name ''gpd'') ''read_file'')]"
  "parse_cell geopandas_cell_27 =
     Some
       [Assign (Name ''gdf_shp'')
         (Call (Attr (Name ''gpd'') ''read_file'') [Pos (Str ''../data/Major_Basins.shp'')])]"
  "parse_cell geopandas_cell_29 =
     Some
       [Assign (Name ''gdf_shp'')
         (Call (Attr (Name ''gpd'') ''read_file'')
           [Pos (Str ''../data/Major_River_Basins.zip'')])]"
  "parse_cell geopandas_cell_30 =
     Some [Expr (Call (Attr (Name ''gdf_shp'') ''head'') [])]"
  "parse_cell geopandas_cell_31 =
     Some [Expr (Call (Attr (Attr (Name ''gdf_shp'') ''crs'') ''to_string'') [])]"
  "parse_cell geopandas_cell_32 =
     Some
       [Expr
         (Call (Attr (Name ''gdf_shp'') ''plot'')
           [Kw ''column'' (Str ''Basin''), Kw ''categorical'' (Const ''True''),
            Kw ''figsize'' (Tuple [Num ''12'', Num ''7'']), Kw ''cmap'' (Str ''Pastel2'')])]"
  "parse_cell geopandas_cell_35 =
     Some
       [Assign (Name ''gdf_geojson'')
         (Call (Attr (Name ''gpd'') ''read_file'')
           [Kw ''filename'' (Str ''../data/Major_River_Basins.geojson''),
            Kw ''driver'' (Str ''GeoJSON'')])]"
  "parse_cell geopandas_cell_36 =
     Some [Expr (Call (Attr (Name ''gdf_geojson'') ''plot'') [])]"
  "parse_cell geopandas_cell_38 = Some [Import [''fiona''] None]"
  "parse_cell geopandas_cell_39 =
     Some [Expr (Attr (Name ''fiona'') ''supported_drivers'')]"
  "parse_cell geopandas_cell_41 =
     Some
       [Assign
         (Subscript
           (Attr
             (Attr (Attr (Attr (Attr (Name ''gpd'') ''io'') ''file'') ''fiona'')
               ''drvsupport'')
             ''supported_drivers'')
           (Str ''KML''))
         (Str ''rw'')]"
  "parse_cell geopandas_cell_42 =
     Some
       [Assign (Name ''gdf_kml'')
         (Call (Attr (Name ''gpd'') ''read_file'')
           [Pos (Str ''../data/Major_River_Basins.kml''), Kw ''driver'' (Str ''KML'')]),
        Expr (Call (Attr (Name ''gdf_kml'') ''plot'') [Kw ''column'' (Str ''Name'')])]"
  by code_simp+

lemma arcgis_words:
  "cell_words arcgis_cell_6 =
     Some
       [''import'', ''pandas'', ''as'', ''pd'', ''from'', ''arcgis'', ''import'',
        ''GeoAccessor'']"
  "cell_words arcgis_cell_7 = Some [''df'', ''pd'', ''read_csv'']"
  "cell_words arcgis_cell_8 = Some [''GeoAccessor'', ''from_xy'']"
  "cell_words arcgis_cell_10 =
     Some [''sdf'', ''GeoAccessor'', ''from_xy'', ''df'', ''x_column'', ''y_column'', ''sr'']"
  "cell_words arcgis_cell_12 = Some [''sdf'', ''head'']"
  "cell_words arcgis_cell_13 = Some [''type'', ''sdf'']"
  "cell_words arcgis_cell_15 = Some [''type'', ''sdf'', ''spatial'']"
  "cell_words arcgis_cell_16 = Some [''sdf'', ''spatial'', ''centroid'']"
  "cell_words arcgis_cell_17 = Some [''sdf'', ''spatial'', ''plot'']"
  "cell_words arcgis_cell_20 = Some [''GeoAccessor'', ''from_featureclass'']"
  "cell_words arcgis_cell_21 =
     Some [''sdf_shp'', ''GeoAccessor'', ''from_featureclass'']"
  "cell_words arcgis_cell_22 = Some [''sdf_shp'', ''head'']"
  "cell_words arcgis_cell_23 = Some [''sdf_shp'', ''spatial'', ''sr'']"
  "cell_words arcgis_cell_24 = Some [''sdf_shp'', ''spatial'', ''plot'']"
  "cell_words arcgis_cell_26 = Some [''GeoAccessor'']"
  "cell_words arcgis_cell_28 =
     Some [''from'', ''arcgis'', ''features'', ''import'', ''FeatureLayer'']"
  "cell_words arcgis_cell_29 = Some [''state_layer_url'', ''county_layer_url'']"
  "cell_words arcgis_cell_30 =
     Some [''state_layer'', ''FeatureLayer'', ''state_layer_url'', ''type'', ''state_layer'']"
  "cell_words arcgis_cell_31 =
     Some [''sdf_state'', ''GeoAccessor'', ''from_layer'', ''state_layer'']"
  "cell_words arcgis_cell_32 = Some [''sdf_state'', ''info'']"
  "cell_words arcgis_cell_33 = Some [''sdf_state'', ''spatial'', ''sr'']"
  "cell_words arcgis_cell_34 = Some [''sdf_state'', ''spatial'', ''plot'']"
  "cell_words arcgis_cell_35 = Some []"
  by code_simp+

lemma geopandas_words:
  "cell_words geopandas_cell_6 =
     Some
       [''import'', ''pandas'', ''as'', ''pd'', ''import'', ''geopandas'', ''as'', ''gpd'']"
  "cell_words geopandas_cell_7 = Some [''df'', ''pd'', ''read_csv'']"
  "cell_words geopandas_cell_8 = Some [''df'', ''head'']"
  "cell_words geopandas_cell_10 = Some [''gpd'', ''points_from_xy'']"
  "cell_words geopandas_cell_12 =
     Some [''geometries'', ''gpd'', ''points_from_xy'', ''x'', ''df'', ''y'', ''df'']"
  "cell_words geopandas_cell_14 = Some [''gpd'', ''GeoDataFrame'']"
  "cell_words geopandas_cell_15 =
     Some
       [''gdf_csv'', ''gpd'', ''GeoDataFrame'', ''data'', ''df'', ''geometry'', ''geometries'',
        ''crs'', ''type'', ''gdf_csv'']"
  "cell_words geopandas_cell_17 = Some [''gdf_csv'', ''head'']"
  "cell_words geopandas_cell_18 = Some [''gdf_csv'', ''info'']"
  "cell_words geopandas_cell_19 = Some [''gdf_csv'', ''crs'']"
  "cell_words geopandas_cell_20 = Some [''gdf_csv'', ''crs'', ''to_epsg'']"
  "cell_words geopandas_cell_21 = Some [''gdf_utm'', ''gdf_csv'', ''to_csv'']"
  "cell_words geopandas_cell_22 =
     Some [''gdf_csv'', ''plot'', ''color'', ''marker'', ''alpha'', ''figsize'']"
  "cell_words geopandas_cell_26 = Some [''gpd'', ''read_file'']"
  "cell_words geopandas_cell_27 = Some [''gdf_shp'', ''gpd'', ''read_file'']"
  "cell_words geopandas_cell_29 = Some [''gdf_shp'', ''gpd'', ''read_file'']"
  "cell_words geopandas_cell_30 = Some [''gdf_shp'', ''head'']"
  "cell_words geopandas_cell_31 = Some [''gdf_shp'', ''crs'', ''to_string'']"
  "cell_words geopandas_cell_32 =
     Some
       [''gdf_shp'', ''plot'', ''column'', ''categorical'', ''True'', ''figsize'', ''cmap'']"
  "cell_words geopandas_cell_35 =
     Some [''gdf_geojson'', ''gpd'', ''read_file'', ''filename'', ''driver'']"
  "cell_words geopandas_cell_36 = Some [''gdf_geojson'', ''plot'']"
  "cell_words geopandas_cell_38 = Some [''import'', ''fiona'']"
  "cell_words geopandas_cell_39 = Some [''fiona'', ''supported_drivers'']"
  "cell_words geopandas_cell_41 =
     Some [''gpd'', ''io'', ''file'', ''fiona'', ''drvsupport'', ''supported_drivers'']"
  "cell_words geopandas_cell_42 =
     Some
       [''gdf_kml'', ''gpd'', ''read_file'', ''driver'', ''gdf_kml'', ''plot'', ''column'']"
  by code_simp+

section \<open>Facts about the notebooks\<close>

lemmas cells_parsed = arcgis_parsed geopandas_parsed

lemmas cells_words = arcgis_words geopandas_words

lemmas notebooks_unfolded =
  repository_cells_def repository_def arcgis_notebook_def geopandas_notebook_def

lemma no_control_words:
  "filter (uses_word_of control_words) repository_cells = []"
  by (simp add: notebooks_unfolded uses_word_of_def cells_words control_words_def
      handling_words_def loop_words_def)

lemma no_handling_words:
  "filter (uses_word_of (handling_words @ loop_words)) repository_cells = []"
  by (simp add: notebooks_unfolded uses_word_of_def cells_words handling_words_def
      loop_words_def)

lemma no_cell_names_to_crs:
  "filter (uses_word_of [''to_crs'']) repository_cells = []"
  by (simp add: notebooks_unfolded uses_word_of_def cells_words)

lemma unparsed_cells:
  "filter (\<lambda>c. parse_cell c = None) repository_cells = [arcgis_cell_26]"
  by (simp add: notebooks_unfolded cells_parsed)

lemma bare_attribute_tokens:
  "logical_lines arcgis_cell_26 = Some [[NAME ''GeoAccessor'', OP (CHR ''.'')]]"
  by code_simp

lemma bare_attribute_in_notebook: "arcgis_cell_26 \<in> set arcgis_notebook"
  by (simp add: arcgis_notebook_def)

lemma kml_cell_in_repository: "geopandas_cell_42 \<in> set repository_cells"
  by (simp add: notebooks_unfolded)

lemma files_handed_over:
  "file_reads repository =
     [(''from_featureclass'', ''Major_Basins.shp''),
      (''read_csv'', ''NC_Charging_Stations.csv''),
      (''read_file'', ''Major_Basins.shp''),
      (''read_file'', ''Major_River_Basins.zip''),
      (''read_file'', ''Major_River_Basins.geojson''),
      (''read_file'', ''Major_River_Basins.kml'')]"
  by (simp add: file_reads_def strings_passed_def notebook_stmts_def cell_stmts_def
      repository_def arcgis_notebook_def geopandas_notebook_def cells_parsed
      List.map_filter_simps is_local_path_def is_url_def basename_def)

lemma files_read:
  "local_files_read repository =
     [''NC_Charging_Stations.csv'', ''Major_Basins.shp'', ''Major_River_Basins.zip'',
      ''Major_River_Basins.geojson'', ''Major_River_Basins.kml'']"
  by (simp add: local_files_read_def files_handed_over)

lemma urls_handed_over:
  "url_reads repository =
     [(''FeatureLayer'',
       ''https://services.nconemap.gov/secure/rest/services/NC1Map_Regional_Boundaries/FeatureServer/0'')]"
  by (simp add: url_reads_def strings_passed_def notebook_stmts_def cell_stmts_def
      repository_def arcgis_notebook_def geopandas_notebook_def cells_parsed
      List.map_filter_simps is_url_def)

lemma urls_bound:
  "urls_defined repository =
     [(''state_layer_url'',
       ''https://services.nconemap.gov/secure/rest/services/NC1Map_Regional_Boundaries/FeatureServer/0''),
      (''county_layer_url'',
       ''https://services.nconemap.gov/secure/rest/services/NC1Map_Regional_Boundaries/FeatureServer/1'')]"
  by (simp add: urls_defined_def notebook_stmts_def cell_stmts_def
      repository_def arcgis_notebook_def geopandas_notebook_def cells_parsed is_url_def)

lemma cells_that_store:
  "filter (\<lambda>c. list_ex stores_into_object (cell_stmts c)) repository_cells =
     [geopandas_cell_41]"
  by (simp add: notebooks_unfolded cell_stmts_def cells_parsed)

lemma storing_cells_of_repository:
  "map storing_cells repository = [[], [geopandas_cell_41]]"
  by (simp add: storing_cells_def repository_def arcgis_notebook_def geopandas_notebook_def
      cell_stmts_def cells_parsed)

lemma imports_of_repository:
  "map imports_of repository = [[''pd'', ''GeoAccessor'', ''FeatureLayer''], [''pd'', ''gpd'', ''fiona'']]"
  by (simp add: imports_of_def notebook_stmts_def cell_stmts_def repository_def
      arcgis_notebook_def geopandas_notebook_def cells_parsed List.map_filter_simps)

lemma library_storing_cells_of_repository:
  "map library_storing_cells repository = [[], [geopandas_cell_41]]"
proof -
  have "imports_of arcgis_notebook = [''pd'', ''GeoAccessor'', ''FeatureLayer'']"
    and "imports_of geopandas_notebook = [''pd'', ''gpd'', ''fiona'']"
    using imports_of_repository by (simp_all add: repository_def)
  then show ?thesis
    by (simp add: library_storing_cells_def repository_def cell_stmts_def cells_parsed
        arcgis_notebook_def geopandas_notebook_def)
qed

lemma operations_of_the_cells:
  "map cell_ops arcgis_notebook =
     [2, 2, 0, 2, 2, 1, 2, 2, 3, 0, 2, 2, 2, 3, 0, 1, 0, 2, 2, 2, 2, 3, 0]"
  "map cell_ops geopandas_notebook =
     [2, 2, 2, 0, 4, 0, 3, 2, 2, 1, 3, 2, 2, 0, 2, 2, 2, 3, 2, 2, 2, 1, 1, 6, 4]"
  by (simp_all add: arcgis_notebook_def geopandas_notebook_def cell_ops_def stmts_ops_def
      cell_stmts_def cells_parsed)

section \<open>The cells are simple statements\<close>

text \<open>
  C3, as stated, fails: the ArcGIS notebook's cell whose code is the bare
  \<open>GeoAccessor.\<close> is a cell of the notebook and is not a complete Python statement.
\<close>

theorem bare_attribute_cell_is_no_statement:
  "last arcgis_cell_26 = ''GeoAccessor.''
   \<and> arcgis_cell_26 \<in> set arcgis_notebook
   \<and> parse_cell arcgis_cell_26 = None"
  using arcgis_parsed(15) bare_attribute_in_notebook
  by (simp add: arcgis_cell_26_def)

text \<open>
  C3, amended. No code cell of either notebook contains a word of control flow, and
  every code cell but one parses as a sequence of simple statements: imports,
  assignments, expression statements and help queries. The one exception is the bare
  \<open>GeoAccessor.\<close> cell: its one statement is a name and a dot, which is no
  expression at any depth of parsing. Whatever the libraries and the state of the
  kernel, running it raises a syntax error, so a run of the ArcGIS notebook from the
  top ends in an exception. Whether the other cells raise when run is the libraries'
  matter and is not stated here.
\<close>

theorem cells_are_simple_statements_but_one:
  "filter (uses_word_of control_words) repository_cells = []
   \<and> filter (\<lambda>c. parse_cell c = None) repository_cells = [arcgis_cell_26]
   \<and> logical_lines arcgis_cell_26 = Some [[NAME ''GeoAccessor'', OP (CHR ''.'')]]
   \<and> (\<forall>n. parse_expr n [NAME ''GeoAccessor'', OP (CHR ''.'')] = None)
   \<and> run_cell L k arcgis_cell_26 = Inl SyntaxError
   \<and> (\<exists>x. run_all L k arcgis_notebook = Inl x)"
proof -
  have unparsed: "parse_cell arcgis_cell_26 = None"
    by (rule arcgis_parsed(15))
  have never: "\<forall>n. parse_expr n [NAME ''GeoAccessor'', OP (CHR ''.'')] = None"
    by (simp add: dangling_dot_never_parses)
  have raises: "run_cell L k arcgis_cell_26 = Inl SyntaxError"
    by (rule run_cell_unparsed [OF unparsed])
  have stops: "\<exists>x. run_all L k arcgis_notebook = Inl x"
    by (rule run_all_stops [OF unparsed bare_attribute_in_notebook])
  from no_control_words unparsed_cells bare_attribute_tokens never raises stops
  show ?thesis
    by (intro conjI)
qed

section \<open>The projection cell\<close>

text \<open>
  C2. The cell commented \<open>#Project to UTM Zone 17N\<close> is one assignment whose
  right-hand side is one call: the method \<open>to_csv\<close> of \<open>gdf_csv\<close>, with the
  argument \<open>32617\<close>. Running it looks \<open>gdf_csv\<close> up, asks it for \<open>to_csv\<close>,
  calls that with \<open>32617\<close> and binds \<open>gdf_utm\<close> to whatever the call returns. No
  cell of either notebook names \<open>to_crs\<close>.
\<close>

theorem projection_cell_calls_to_csv:
  "hd geopandas_cell_21 = ''#Project to UTM Zone 17N ''
   \<and> parse_cell geopandas_cell_21 =
       Some [Assign (Name ''gdf_utm'')
               (Call (Attr (Name ''gdf_csv'') ''to_csv'') [Pos (Num ''32617'')])]
   \<and> filter (uses_word_of [''to_crs'']) repository_cells = []
   \<and> run_cell L k geopandas_cell_21 =
       (case eval_expr L (names k) (Name ''gdf_csv'') (world k) of
          Inl x \<Rightarrow> Inl x
        | Inr (g, w1) \<Rightarrow>
            (case lib_getattr L g ''to_csv'' w1 of
               Inl x \<Rightarrow> Inl x
             | Inr (f, w2) \<Rightarrow>
                 (case lib_call L f [VNum ''32617''] [] w2 of
                    Inl x \<Rightarrow> Inl x
                  | Inr (v, w3) \<Rightarrow>
                      Inr (k\<lparr>names := (names k)(''gdf_utm'' \<mapsto> v), world := w3\<rparr>))))"
proof -
  have parsed: "parse_cell geopandas_cell_21 =
       Some [Assign (Name ''gdf_utm'')
               (Call (Attr (Name ''gdf_csv'') ''to_csv'') [Pos (Num ''32617'')])]"
    by (rule geopandas_parsed(12))
  have "hd geopandas_cell_21 = ''#Project to UTM Zone 17N ''"
    by (simp add: geopandas_cell_21_def)
  moreover have "run_cell L k geopandas_cell_21 =
       (case eval_expr L (names k) (Name ''gdf_csv'') (world k) of
          Inl x \<Rightarrow> Inl x
        | Inr (g, w1) \<Rightarrow>
            (case lib_getattr L g ''to_csv'' w1 of
               Inl x \<Rightarrow> Inl x
             | Inr (f, w2) \<Rightarrow>
                 (case lib_call L f [VNum ''32617''] [] w2 of
                    Inl x \<Rightarrow> Inl x
                  | Inr (v, w3) \<Rightarrow>
                      Inr (k\<lparr>names := (names k)(''gdf_utm'' \<mapsto> v), world := w3\<rparr>))))"
    unfolding run_cell_parsed [OF parsed]
    by (simp split: sum.splits option.splits)
  ultimately show ?thesis
    using parsed no_cell_names_to_crs by simp
qed

section \<open>External inputs\<close>

text \<open>
  C4, as stated, fails: the zipped shapefile \<open>Major_River_Basins.zip\<close> is read as
  well, and two feature-service URLs are defined, not one.
\<close>

theorem zipped_shapefile_read_and_two_urls_defined:
  "''Major_River_Basins.zip'' \<in> set (local_files_read repository)
   \<and> length (urls_defined repository) = 2"
  by (simp add: files_read urls_bound)

text \<open>
  C4, amended. The local files the notebooks pass to the libraries are exactly five:
  \<open>NC_Charging_Stations.csv\<close>, \<open>Major_Basins.shp\<close>, \<open>Major_River_Basins.zip\<close>,
  \<open>Major_River_Basins.geojson\<close> and \<open>Major_River_Basins.kml\<close>. Two feature-service
  URLs are defined, \<open>state_layer_url\<close> and \<open>county_layer_url\<close>; only the first is
  passed to a call, \<open>FeatureLayer\<close>. Each file is the argument of a reading call:
  \<open>read_csv\<close>, \<open>from_featureclass\<close> or \<open>read_file\<close>.
\<close>

theorem external_inputs_of_the_notebooks:
  "local_files_read repository =
     [''NC_Charging_Stations.csv'', ''Major_Basins.shp'', ''Major_River_Basins.zip'',
      ''Major_River_Basins.geojson'', ''Major_River_Basins.kml'']
   \<and> file_reads repository =
     [(''from_featureclass'', ''Major_Basins.shp''),
      (''read_csv'', ''NC_Charging_Stations.csv''),
      (''read_file'', ''Major_Basins.shp''),
      (''read_file'', ''Major_River_Basins.zip''),
      (''read_file'', ''Major_River_Basins.geojson''),
      (''read_file'', ''Major_River_Basins.kml'')]
   \<and> urls_defined repository =
     [(''state_layer_url'',
       ''https://services.nconemap.gov/secure/rest/services/NC1Map_Regional_Boundaries/FeatureServer/0''),
      (''county_layer_url'',
       ''https://services.nconemap.gov/secure/rest/services/NC1Map_Regional_Boundaries/FeatureServer/1'')]
   \<and> url_reads repository =
     [(''FeatureLayer'',
       ''https://services.nconemap.gov/secure/rest/services/NC1Map_Regional_Boundaries/FeatureServer/0'')]"
  using files_read files_handed_over urls_bound urls_handed_over by (intro conjI)

section \<open>No handling of exceptions\<close>

text \<open>
  C6. No code cell of either notebook contains a word of exception handling
  (\<open>try\<close>, \<open>except\<close>, \<open>finally\<close>, \<open>with\<close>, \<open>raise\<close>, \<open>assert\<close>) nor a loop
  that could retry, and every cell but the bare \<open>GeoAccessor.\<close> parses as simple
  statements, each making the library operations counted here (none in the help
  queries, the empty cell and the cell that only binds the two URLs). So an exception
  raised by a library operation leaves the cell unchanged: make any one operation of a
  cell raise \<open>x\<close>, in a library on which the cell would otherwise run to its end,
  and the cell raises \<open>x\<close>; and whatever the library does, the cell with the fault
  ends in \<open>x\<close> or exactly as it ends without the fault, with the library's own
  exception if the library raises.
\<close>

theorem library_exceptions_leave_the_cell:
  "filter (uses_word_of (handling_words @ loop_words)) repository_cells = []
   \<and> filter (\<lambda>c. parse_cell c = None) repository_cells = [arcgis_cell_26]
   \<and> map cell_ops arcgis_notebook =
       [2, 2, 0, 2, 2, 1, 2, 2, 3, 0, 2, 2, 2, 3, 0, 1, 0, 2, 2, 2, 2, 3, 0]
   \<and> map cell_ops geopandas_notebook =
       [2, 2, 2, 0, 4, 0, 3, 2, 2, 1, 3, 2, 2, 0, 2, 2, 2, 3, 2, 2, 2, 1, 1, 6, 4]
   \<and> (\<forall>c \<in> set repository_cells.
         (run_cell (faulty n x L) (at_count 0 k) c = Inl x
          \<or> run_cell (faulty n x L) (at_count 0 k) c = with_count (cell_ops c) (run_cell L k c))
         \<and> (\<forall>k'. run_cell L k c = Inr k' \<longrightarrow> n < cell_ops c \<longrightarrow>
                run_cell (faulty n x L) (at_count 0 k) c = Inl x))"
proof -
  have "run_cell (faulty n x L) (at_count 0 k) c = Inl x"
    if "run_cell L k c = Inr k'" and "n < cell_ops c" for c k'
    using run_cell_faulty [OF that(1), of n x] that(2) by simp
  then have "\<forall>c \<in> set repository_cells.
         (run_cell (faulty n x L) (at_count 0 k) c = Inl x
          \<or> run_cell (faulty n x L) (at_count 0 k) c = with_count (cell_ops c) (run_cell L k c))
         \<and> (\<forall>k'. run_cell L k c = Inr k' \<longrightarrow> n < cell_ops c \<longrightarrow>
                run_cell (faulty n x L) (at_count 0 k) c = Inl x)"
    using run_cell_faulty_or_same [of n x L k] by blast
  with no_handling_words unparsed_cells operations_of_the_cells show ?thesis
    by (intro conjI)
qed

text \<open>
  The KML cell on the scripted library makes four operations and runs to its end. With
  a fault at the second, the call of \<open>read_file\<close>, it raises the fault; and when
  \<open>read_file\<close> itself raises \<open>DriverError\<close> and the fault would only come at the
  fourth, it raises \<open>DriverError\<close>.
\<close>

theorem library_exceptions_leave_the_cell_witness:
  "geopandas_cell_42 \<in> set repository_cells
   \<and> outcome (run_cell (scripted_library no_failures) kernel_with_gpd geopandas_cell_42) =
       Inr [Called [''geopandas'', ''read_file'']
              [VStr ''../data/Major_River_Basins.kml''] [(''driver'', VStr ''KML'')],
            Called [''geopandas'', ''read_file'', ''()'', ''plot''] []
              [(''column'', VStr ''Name'')]]
   \<and> cell_ops geopandas_cell_42 = 4
   \<and> run_cell (faulty 1 (Raised ''OSError'') (scripted_library no_failures))
         (at_count 0 kernel_with_gpd) geopandas_cell_42 =
       Inl (Raised ''OSError'')
   \<and> run_cell
         (faulty 3 (Raised ''OSError'')
            (scripted_library (fails_at [''geopandas'', ''read_file''] (Raised ''DriverError''))))
         (at_count 0 kernel_with_gpd) geopandas_cell_42 =
       Inl (Raised ''DriverError'')"
proof -
  let ?L = "scripted_library no_failures"
  let ?D = "scripted_library (fails_at [''geopandas'', ''read_file''] (Raised ''DriverError''))"
  have ops: "cell_ops geopandas_cell_42 = 4"
    by (simp add: cell_ops_def stmts_ops_def cell_stmts_def geopandas_parsed(25))
  have ran: "outcome (run_cell ?L kernel_with_gpd geopandas_cell_42) =
       Inr [Called [''geopandas'', ''read_file'']
              [VStr ''../data/Major_River_Basins.kml''] [(''driver'', VStr ''KML'')],
            Called [''geopandas'', ''read_file'', ''()'', ''plot''] []
              [(''column'', VStr ''Name'')]]"
    unfolding run_cell_parsed [OF geopandas_parsed(25)]
    by (simp add: outcome_def scripted_library_def no_failures_def kernel_with_gpd_def)
  then obtain k' where ended: "run_cell ?L kernel_with_gpd geopandas_cell_42 = Inr k'"
    by (cases "run_cell ?L kernel_with_gpd geopandas_cell_42") (auto simp: outcome_def)
  from library_exceptions_leave_the_cell [of 1 "Raised ''OSError''" ?L kernel_with_gpd]
  have "\<forall>k'. run_cell ?L kernel_with_gpd geopandas_cell_42 = Inr k' \<longrightarrow>
          1 < cell_ops geopandas_cell_42 \<longrightarrow>
          run_cell (faulty 1 (Raised ''OSError'') ?L) (at_count 0 kernel_with_gpd)
            geopandas_cell_42 = Inl (Raised ''OSError'')"
    using kml_cell_in_repository by blast
  with ended ops
  have fault: "run_cell (faulty 1 (Raised ''OSError'') ?L) (at_count 0 kernel_with_gpd)
                 geopandas_cell_42 = Inl (Raised ''OSError'')"
    by simp
  from library_exceptions_leave_the_cell [of 3 "Raised ''OSError''" ?D kernel_with_gpd]
  have "run_cell (faulty 3 (Raised ''OSError'') ?D) (at_count 0 kernel_with_gpd)
          geopandas_cell_42 = Inl (Raised ''OSError'')
        \<or> run_cell (faulty 3 (Raised ''OSError'') ?D) (at_count 0 kernel_with_gpd)
            geopandas_cell_42 =
           with_count (cell_ops geopandas_cell_42) (run_cell ?D kernel_with_gpd geopandas_cell_42)"
    using kml_cell_in_repository by blast
  moreover have "run_cell ?D kernel_with_gpd geopandas_cell_42 = Inl (Raised ''DriverError'')"
    unfolding run_cell_parsed [OF geopandas_parsed(25)]
    by (simp add: scripted_library_def fails_at_def kernel_with_gpd_def)
  moreover have "run_cell (faulty 3 (Raised ''OSError'') ?D) (at_count 0 kernel_with_gpd)
          geopandas_cell_42 \<noteq> Inl (Raised ''OSError'')"
    unfolding run_cell_parsed [OF geopandas_parsed(25)]
    by (simp add: faulty_def tick_def at_count_def scripted_library_def fails_at_def
        kernel_with_gpd_def)
  ultimately
  have own: "run_cell (faulty 3 (Raised ''OSError'') ?D) (at_count 0 kernel_with_gpd)
               geopandas_cell_42 = Inl (Raised ''DriverError'')"
    by (auto simp: with_count_def)
  from kml_cell_in_repository ran ops fault own show ?thesis
    by (intro conjI)
qed

section \<open>Stores into library-owned objects\<close>

text \<open>
  C7, as stated, fails: the GeoPandas notebook's cell that enables the KML driver
  assigns to an item of \<open>supported_drivers\<close>, reached through the imported module
  \<open>gpd\<close>; run on the scripted library, the store is what the cell leaves in the
  world.
\<close>

theorem driver_registry_cell_stores_into_geopandas:
  "geopandas_cell_41 \<in> set geopandas_notebook
   \<and> parse_cell geopandas_cell_41 =
       Some [Assign
               (Subscript
                  (Attr (Attr (Attr (Attr (Attr (Name ''gpd'') ''io'') ''file'') ''fiona'')
                     ''drvsupport'') ''supported_drivers'')
                  (Str ''KML''))
               (Str ''rw'')]
   \<and> library_storing_cells geopandas_notebook = [geopandas_cell_41]
   \<and> outcome (run_cell (scripted_library no_failures) kernel_with_gpd geopandas_cell_41) =
       Inr [Stored
              (VObj [''geopandas'', ''io'', ''file'', ''fiona'', ''drvsupport'',
                     ''supported_drivers''])
              (VStr ''KML'') (VStr ''rw'')]"
proof -
  have "geopandas_cell_41 \<in> set geopandas_notebook"
    by (simp add: geopandas_notebook_def)
  moreover have "library_storing_cells geopandas_notebook = [geopandas_cell_41]"
    using library_storing_cells_of_repository by (simp add: repository_def)
  moreover have
    "outcome (run_cell (scripted_library no_failures) kernel_with_gpd geopandas_cell_41) =
       Inr [Stored
              (VObj [''geopandas'', ''io'', ''file'', ''fiona'', ''drvsupport'',
                     ''supported_drivers''])
              (VStr ''KML'') (VStr ''rw'')]"
    unfolding run_cell_parsed [OF geopandas_parsed(24)]
    by (simp add: outcome_def scripted_library_def kernel_with_gpd_def)
  ultimately show ?thesis
    using geopandas_parsed(24) by simp
qed

text \<open>
  C7, amended. Exactly one code cell stores into an object instead of binding a
  notebook variable: the GeoPandas notebook's cell
  \<open>gpd.io.file.fiona.drvsupport.supported_drivers['KML'] = 'rw'\<close>, whose target is
  reached through the imported module \<open>gpd\<close>. Running it is one item assignment on
  that object, and the world it leaves is the one the later cells run in. Every other
  cell of both notebooks runs the same whatever attribute and item assignment would
  do: it only imports, binds plain names, evaluates expressions or asks for help.
\<close>

theorem only_the_driver_registry_cell_stores:
  "map storing_cells repository = [[], [geopandas_cell_41]]
   \<and> map library_storing_cells repository = [[], [geopandas_cell_41]]
   \<and> run_cell L k geopandas_cell_41 =
       (case eval_expr L (names k)
               (Attr (Attr (Attr (Attr (Attr (Name ''gpd'') ''io'') ''file'') ''fiona'')
                  ''drvsupport'') ''supported_drivers'')
               (world k) of
          Inl x \<Rightarrow> Inl x
        | Inr (d, w1) \<Rightarrow>
            (case lib_setitem L d (VStr ''KML'') (VStr ''rw'') w1 of
               Inl x \<Rightarrow> Inl x
             | Inr w2 \<Rightarrow> Inr (k\<lparr>world := w2\<rparr>)))
   \<and> (\<forall>c \<in> set repository_cells. c \<noteq> geopandas_cell_41 \<longrightarrow>
         run_cell (L\<lparr>lib_setattr := g, lib_setitem := f\<rparr>) k c = run_cell L k c)"
proof -
  have "run_cell L k geopandas_cell_41 =
       (case eval_expr L (names k)
               (Attr (Attr (Attr (Attr (Attr (Name ''gpd'') ''io'') ''file'') ''fiona'')
                  ''drvsupport'') ''supported_drivers'')
               (world k) of
          Inl x \<Rightarrow> Inl x
        | Inr (d, w1) \<Rightarrow>
            (case lib_setitem L d (VStr ''KML'') (VStr ''rw'') w1 of
               Inl x \<Rightarrow> Inl x
             | Inr w2 \<Rightarrow> Inr (k\<lparr>world := w2\<rparr>)))"
    unfolding run_cell_parsed [OF geopandas_parsed(24)]
    by (simp split: sum.splits option.splits)
  moreover have "run_cell (L\<lparr>lib_setattr := g, lib_setitem := f\<rparr>) k c = run_cell L k c"
    if "c \<in> set repository_cells" and "c \<noteq> geopandas_cell_41" for c
  proof -
    have "c \<notin> set (filter (\<lambda>c. list_ex stores_into_object (cell_stmts c)) repository_cells)"
      using that(2) by (simp only: cells_that_store) simp
    with that(1) have "\<not> list_ex stores_into_object (cell_stmts c)"
      by simp
    then show ?thesis
      by (rule run_cell_ignores_stores)
  qed
  ultimately show ?thesis
    using storing_cells_of_repository library_storing_cells_of_repository by blast
qed

text \<open>
  On a library that refuses every store, the KML cell runs as before, and the cell
  that enables the driver raises.
\<close>

theorem only_the_driver_registry_cell_stores_witness:
  "geopandas_cell_42 \<in> set repository_cells
   \<and> geopandas_cell_42 \<noteq> geopandas_cell_41
   \<and> run_cell (read_only (scripted_library no_failures)) kernel_with_gpd geopandas_cell_42 =
       run_cell (scripted_library no_failures) kernel_with_gpd geopandas_cell_42
   \<and> outcome (run_cell (scripted_library no_failures) kernel_with_gpd geopandas_cell_42) =
       Inr [Called [''geopandas'', ''read_file'']
              [VStr ''../data/Major_River_Basins.kml''] [(''driver'', VStr ''KML'')],
            Called [''geopandas'', ''read_file'', ''()'', ''plot''] []
              [(''column'', VStr ''Name'')]]
   \<and> outcome (run_cell (read_only (scripted_library no_failures)) kernel_with_gpd
                 geopandas_cell_41) =
       Inl (Raised ''TypeError'')"
proof -
  let ?L = "scripted_library no_failures"
  have differ: "geopandas_cell_42 \<noteq> geopandas_cell_41"
    by (simp add: geopandas_cell_42_def geopandas_cell_41_def)
  from only_the_driver_registry_cell_stores
         [of ?L kernel_with_gpd "\<lambda>v a x w. Inl (Raised ''TypeError'')"
             "\<lambda>v i x w. Inl (Raised ''TypeError'')"]
  have "\<forall>c \<in> set repository_cells. c \<noteq> geopandas_cell_41 \<longrightarrow>
          run_cell (read_only ?L) kernel_with_gpd c = run_cell ?L kernel_with_gpd c"
    by (simp add: read_only_def)
  with kml_cell_in_repository differ
  have same: "run_cell (read_only ?L) kernel_with_gpd geopandas_cell_42 =
                run_cell ?L kernel_with_gpd geopandas_cell_42"
    by blast
  have ran: "outcome (run_cell ?L kernel_with_gpd geopandas_cell_42) =
       Inr [Called [''geopandas'', ''read_file'']
              [VStr ''../data/Major_River_Basins.kml''] [(''driver'', VStr ''KML'')],
            Called [''geopandas'', ''read_file'', ''()'', ''plot''] []
              [(''column'', VStr ''Name'')]]"
    unfolding run_cell_parsed [OF geopandas_parsed(25)]
    by (simp add: outcome_def scripted_library_def no_failures_def kernel_with_gpd_def)
  have refused: "outcome (run_cell (read_only ?L) kernel_with_gpd geopandas_cell_41) =
       Inl (Raised ''TypeError'')"
    unfolding run_cell_parsed [OF geopandas_parsed(24)]
    by (simp add: outcome_def read_only_def scripted_library_def kernel_with_gpd_def)
  from kml_cell_in_repository differ same ran refused show ?thesis
    by simp
qed


end
